theory Spec2Isabelle
  imports Complex_Main "HOL-Library.Monad_Syntax"
begin

section \<open>Discrete stellar feedback: data model\<close>

text \<open>
  The C++ class \<^verbatim>\<open>DiscreteStellarFeedback\<close> (src/src/DiscreteStellarFeedback.cpp) is
  embedded with its \<^verbatim>\<open>double\<close> members as real numbers: every arithmetic operation of
  the source is the exact operation on the reals, \<^verbatim>\<open>log10\<close> is \<open>log 10\<close>, \<^verbatim>\<open>exp\<close> is
  \<open>exp\<close> and \<^verbatim>\<open>pow\<close> on a positive base is \<open>powr\<close>. Rounding, overflow and NaN are not
  part of the model, except where the source branches on them (see \<open>PopIII_IMF\<close>).
\<close>

datatype interp_kind = TypeGSLLinearInterpolator | TypeGSLCubicSplineInterpolator

text \<open>
  Modelled from the spec: \<^verbatim>\<open>GSL::GSLInterpolator\<close> is not part of the sources. A spline
  is "an ordered sequence of (x,y) pairs plus interpolation kind"; the handle returned
  by \<^verbatim>\<open>create(kind, xs, ys, count)\<close> holds the kind and the first \<open>count\<close> abscissas and
  ordinates it was given.
\<close>

record spline =
  spline_kind :: interp_kind
  spline_xs :: "real list"
  spline_ys :: "real list"

definition create :: "interp_kind \<Rightarrow> real list \<Rightarrow> real list \<Rightarrow> nat \<Rightarrow> spline" where
  "create k x y n = \<lparr>spline_kind = k, spline_xs = take n x, spline_ys = take n y\<rparr>"

text \<open>The members of the class, in the order in which \<^verbatim>\<open>dump\<close> writes them.\<close>

record model =
  PopII_M_low :: real
  PopII_M_upp :: real
  PopII_fac_IMF :: real
  PopII_M_SNII_low :: real
  PopII_M_SNIa_low :: real
  PopII_M_SNIa_upp :: real
  PopII_SNIa_delay_mu :: real
  PopII_SNIa_delay_sigma :: real
  PopII_SNIa_delay_norm1 :: real
  PopII_SNIa_delay_norm2 :: real
  PopIII_cutoff :: real
  PopIII_M_low :: real
  PopIII_M_upp :: real
  PopIII_M_SN_low :: real
  PopIII_M1 :: real
  PopIII_M2 :: real
  PopIII_M3 :: real
  PopIII_fac :: real
  PopIII_pw :: real
  PopII_Mint :: real
  PopII_NIIint :: real
  PopII_NIaint :: real
  PopIII_Mint :: real
  PopIII_Nint :: real
  PopIII_Eint :: real
  PopII_SNIa_delay_spline :: spline
  PopIII_IMF_spline :: spline
  PopII_lifetime_spline :: spline
  PopIII_lifetime_spline :: spline
  PopIII_E_SN_spline :: spline
  PopII_SNII_energy :: real
  PopII_SNII_mass :: real
  PopII_SNII_metals :: real
  PopII_SNII_Fe :: real
  PopII_SNII_Mg :: real
  PopII_SNIa_energy :: real
  PopII_SNIa_mass :: real
  PopII_SNIa_metals :: real
  PopII_SNIa_Fe :: real
  PopII_SNIa_Mg :: real
  PopII_SW_energy :: real
  PopII_SW_end_time :: real
  PopIII_SN_energy :: real
  PopIII_SN_mass :: real
  PopIII_SN_metals :: real
  PopIII_SN_Fe :: real
  PopIII_SN_Mg :: real
  PopIII_SW_energy :: real
  PopIII_SW_end_time :: real

section \<open>Initial mass functions and delay time distribution\<close>

definition PopII_IMF_sub1 :: "real \<Rightarrow> real" where
  "PopII_IMF_sub1 m = (let a = log 10 m + 1.1024 in exp (- 0.5 * (a * a / 0.4761)) / m)"

text \<open>In the second branch \<open>1 \<le> m\<close> holds, where \<^verbatim>\<open>pow(m, -2.3)\<close> is the real power.\<close>

definition PopII_IMF :: "model \<Rightarrow> real \<Rightarrow> real" where
  "PopII_IMF s m =
     (if m > PopII_M_low s \<and> m < PopII_M_upp s then
        (if m < 1 then PopII_fac_IMF s * PopII_IMF_sub1 m else m powr (- 2.3))
      else 0)"

definition PopII_mIMF :: "model \<Rightarrow> real \<Rightarrow> real" where
  "PopII_mIMF s m = m * PopII_IMF s m"

definition PopII_SNIa_delay1 :: "model \<Rightarrow> real \<Rightarrow> real" where
  "PopII_SNIa_delay1 s t =
     (let a = (t - PopII_SNIa_delay_mu s) / PopII_SNIa_delay_sigma s
      in PopII_SNIa_delay_norm1 s * (t - 0.03) * (13.6 - t) * exp (- 0.5 * a * a))"

definition PopII_SNIa_delay2 :: "model \<Rightarrow> real \<Rightarrow> real" where
  "PopII_SNIa_delay2 s t =
     (let delay =
        (if t < 0.25 then
           PopII_SNIa_delay_norm2 s * (exp ((t - 0.25) / 0.1) - exp ((0.03 - 0.25) / 0.1))
         else
           PopII_SNIa_delay_norm2 s * (exp ((0.25 - t) / 7) - exp ((0.03 - 0.25) / 0.1)))
      in if delay > 0 then delay else 0)"

definition PopII_SNIa_delay :: "model \<Rightarrow> real \<Rightarrow> real" where
  "PopII_SNIa_delay s t = PopII_SNIa_delay1 s t + PopII_SNIa_delay2 s t"

text \<open>
  \<^verbatim>\<open>pow\<close> of a negative base to a non-integral exponent (\<open>initialize\<close> sets
  \<^verbatim>\<open>_PopIII_pw\<close> to 2.8008394) is NaN, and the comparison \<^verbatim>\<open>IMF > 0.\<close> is false on
  NaN, so that the source returns 0 there: the model writes this branch out.
\<close>

definition PopIII_IMF :: "model \<Rightarrow> real \<Rightarrow> real" where
  "PopIII_IMF s m =
     (if m > PopIII_M_low s \<and> m < PopIII_M_upp s then
        (let logm = log 10 m;
             IMF = (if logm < PopIII_M2 s then
                      0.5 * (logm - PopIII_M1 s) / (PopIII_M2 s - PopIII_M1 s)
                    else
                      0.5 * (logm + PopIII_M3 s - 2 * PopIII_M2 s) /
                        (PopIII_M3 s - PopIII_M2 s))
         in if IMF * (1 - IMF) < 0 then 0
            else (let IMF' = PopIII_fac s * (IMF * (1 - IMF)) powr PopIII_pw s
                  in if IMF' > 0 then IMF' / m else 0))
      else 0)"

definition PopIII_mIMF :: "model \<Rightarrow> real \<Rightarrow> real" where
  "PopIII_mIMF s m = m * PopIII_IMF s m"

text \<open>
  \<^verbatim>\<open>GSLInterpolator::eval\<close> is outside the sources: the evaluation function of the
  interpolator is a parameter \<open>ev\<close> of everything that evaluates a spline.
\<close>

type_synonym evaluator = "spline \<Rightarrow> real \<Rightarrow> real"

definition PopIII_E_SN :: "evaluator \<Rightarrow> model \<Rightarrow> real \<Rightarrow> real" where
  "PopIII_E_SN ev s m = 10 ^ 51 * ev (PopIII_E_SN_spline s) m"

definition PopIII_EIMF :: "evaluator \<Rightarrow> model \<Rightarrow> real \<Rightarrow> real" where
  "PopIII_EIMF ev s m = PopIII_E_SN ev s m * PopIII_IMF s m"

section \<open>Initialisation\<close>

text \<open>
  \<^verbatim>\<open>GSL::qag(f, a, b, tolerance, this)\<close> is outside the sources: the integrator is a
  parameter \<open>q\<close>. The static trampoline \<^verbatim>\<open>X_static(x, this)\<close> that the source passes
  calls the member function \<^verbatim>\<open>X\<close> on the object as it is at the time of the call, so
  the integrand handed to \<open>q\<close> is the closure \<open>X s\<close> over the current state \<open>s\<close>.
\<close>

type_synonym integrator = "(real \<Rightarrow> real) \<Rightarrow> real \<Rightarrow> real \<Rightarrow> real \<Rightarrow> real"

text \<open>Lines 185-210: mass intervals, delay time parameters, Pop III factors.\<close>

definition init_parameters :: "model \<Rightarrow> model" where
  "init_parameters s0 =
     (let s = s0\<lparr>PopII_M_low := 0.07\<rparr>;
          s = s\<lparr>PopII_M_upp := 100\<rparr>;
          s = s\<lparr>PopII_M_SNII_low := 8\<rparr>;
          s = s\<lparr>PopII_M_SNIa_low := 3\<rparr>;
          s = s\<lparr>PopII_M_SNIa_upp := 8\<rparr>;
          s = s\<lparr>PopII_fac_IMF := 1 / PopII_IMF_sub1 1\<rparr>;
          s = s\<lparr>PopII_SNIa_delay_mu := 0.05\<rparr>;
          s = s\<lparr>PopII_SNIa_delay_sigma := 0.01\<rparr>;
          s = s\<lparr>PopII_SNIa_delay_norm1 := 1\<rparr>;
          s = s\<lparr>PopII_SNIa_delay_norm2 := 1\<rparr>;
          s = s\<lparr>PopIII_cutoff := - 5\<rparr>;
          s = s\<lparr>PopIII_M_low := 0.7\<rparr>;
          s = s\<lparr>PopIII_M_upp := 500\<rparr>;
          s = s\<lparr>PopIII_M_SN_low := 10\<rparr>;
          s = s\<lparr>PopIII_M1 := log 10 (PopIII_M_low s)\<rparr>;
          s = s\<lparr>PopIII_M2 := 1.51130759\<rparr>;
          s = s\<lparr>PopIII_M3 := log 10 (PopIII_M_upp s)\<rparr>;
          s = s\<lparr>PopIII_fac := 708.92544818\<rparr>;
          s = s\<lparr>PopIII_pw := 2.8008394\<rparr>
      in s)"

text \<open>Lines 212-223: the five integrals of the IMFs.\<close>

definition init_integrals :: "integrator \<Rightarrow> model \<Rightarrow> model" where
  "init_integrals q s0 =
     (let s = s0\<lparr>PopII_Mint :=
                  q (PopII_mIMF s0) (PopII_M_low s0) (PopII_M_upp s0) (1 / 10 ^ 8)\<rparr>;
          s = s\<lparr>PopII_NIIint :=
                  q (PopII_IMF s) (PopII_M_SNII_low s) (PopII_M_upp s) (1 / 10 ^ 8)\<rparr>;
          s = s\<lparr>PopII_NIaint :=
                  q (PopII_IMF s) (PopII_M_SNIa_low s) (PopII_M_SNIa_upp s) (1 / 10 ^ 8)\<rparr>;
          s = s\<lparr>PopIII_Mint :=
                  q (PopIII_mIMF s) (PopIII_M_low s) (PopIII_M_upp s) (1 / 10 ^ 8)\<rparr>;
          s = s\<lparr>PopIII_Nint :=
                  q (PopIII_IMF s) (PopIII_M_SN_low s) (PopIII_M_upp s) (1 / 10 ^ 8)\<rparr>
      in s)"

text \<open>
  Lines 225-229: normalisation of the delay time function. A zero integral makes the
  source divide by zero (an infinite constant); the model has HOL's \<open>x / 0 = 0\<close> there,
  and every statement that depends on the constants assumes the integrals positive.
\<close>

definition init_delay_norm :: "integrator \<Rightarrow> model \<Rightarrow> model" where
  "init_delay_norm q s0 =
     (let dint = q (PopII_SNIa_delay1 s0) 0.03 13.6 (1 / 10 ^ 8);
          s = s0\<lparr>PopII_SNIa_delay_norm1 := 0.4 / dint\<rparr>;
          dint = q (PopII_SNIa_delay2 s) 0.03 13.6 (1 / 10 ^ 8);
          s = s\<lparr>PopII_SNIa_delay_norm2 := 0.6 / dint\<rparr>
      in s)"

text \<open>
  The local arrays \<^verbatim>\<open>double ts[30], cumul_delay[30]\<close> are uninitialised: a cell is
  \<open>None\<close> until it is written. A write past the end of an array and a read of a cell
  that was never written are undefined behaviour in the source and \<open>None\<close> in the model.
\<close>

type_synonym array = "real option list"

definition read_all :: "array \<Rightarrow> real list option" where
  "read_all a = (if None \<in> set a then None else Some (map the a))"

text \<open>Lines 237-242: the loop over the logarithmic time grid.\<close>

function SNIa_delay_loop ::
  "integrator \<Rightarrow> model \<Rightarrow> real \<Rightarrow> nat \<Rightarrow> array \<Rightarrow> array \<Rightarrow> (nat \<times> array \<times> array) option" where
  "SNIa_delay_loop q s t i ts cumul_delay =
     (if t < log 10 13.6 then
        (if i < length ts \<and> i < length cumul_delay then
           SNIa_delay_loop q s (t + 0.1) (i + 1) (ts[i := Some t])
             (cumul_delay[i := Some (q (PopII_SNIa_delay s) 0.03 (10 powr t) (1 / 10 ^ 8))])
         else None)
      else Some (i, ts, cumul_delay))"
  by pat_completeness auto
termination
proof (relation "measure (\<lambda>(q, s, t, i, ts, c). nat \<lceil>(log 10 13.6 - t) * 10\<rceil>)")
  show "wf (measure (\<lambda>(q, s, t, i, ts, c). nat \<lceil>(log 10 13.6 - t) * 10\<rceil>))"
    by simp
next
  fix q :: integrator and s :: model and t :: real and i :: nat and ts cumul_delay :: array
  assume lt: "t < log 10 13.6"
  have "\<lceil>(log 10 13.6 - (t + 0.1)) * 10\<rceil> = \<lceil>(log 10 13.6 - t) * 10 - 1\<rceil>"
    by (simp add: algebra_simps)
  also have "\<dots> = \<lceil>(log 10 13.6 - t) * 10\<rceil> - 1"
    by simp
  finally have eq: "\<lceil>(log 10 13.6 - (t + 0.1)) * 10\<rceil> = \<lceil>(log 10 13.6 - t) * 10\<rceil> - 1" .
  from lt have "0 < \<lceil>(log 10 13.6 - t) * 10\<rceil>"
    by simp
  with eq show "((q, s, t + 0.1, i + 1, ts[i := Some t],
                  cumul_delay[i := Some (q (PopII_SNIa_delay s) 0.03 (10 powr t) (1 / 10 ^ 8))]),
                 (q, s, t, i, ts, cumul_delay))
                \<in> measure (\<lambda>(q, s, t, i, ts, c). nat \<lceil>(log 10 13.6 - t) * 10\<rceil>)"
    by simp
qed

text \<open>Lines 231-249: the cumulative SNIa delay time spline.\<close>

definition init_SNIa_delay_spline :: "integrator \<Rightarrow> model \<Rightarrow> model option" where
  "init_SNIa_delay_spline q s =
     do {
       let ts = replicate 30 None;
       let cumul_delay = replicate 30 None;
       let ts = ts[0 := Some (- 2)];
       let cumul_delay = cumul_delay[0 := Some 0];
       (i, ts, cumul_delay) \<leftarrow> SNIa_delay_loop q s (log 10 0.03) 1 ts cumul_delay;
       let ts = ts[28 := Some (log 10 13.6)];
       let cumul_delay = cumul_delay[28 := Some 1];
       let ts = ts[29 := Some (log 10 13.8)];
       let cumul_delay = cumul_delay[29 := Some 1];
       t0 \<leftarrow> ts ! 0;
       c1 \<leftarrow> cumul_delay ! 1;
       let ts = ts[0 := Some (t0 + c1)];
       x \<leftarrow> read_all ts;
       y \<leftarrow> read_all cumul_delay;
       Some (s\<lparr>PopII_SNIa_delay_spline := create TypeGSLCubicSplineInterpolator x y 30\<rparr>)
     }"

text \<open>Lines 260-265: the loop over the logarithmic mass grid.\<close>

function PopIII_IMF_loop ::
  "integrator \<Rightarrow> model \<Rightarrow> real \<Rightarrow> nat \<Rightarrow> array \<Rightarrow> array \<Rightarrow> (nat \<times> array \<times> array) option" where
  "PopIII_IMF_loop q s m i PopIII_IMF_ms PopIII_IMF_IMFs =
     (if m < log 10 (PopIII_M_upp s) then
        (if i < length PopIII_IMF_ms \<and> i < length PopIII_IMF_IMFs then
           PopIII_IMF_loop q s (m + 0.01) (i + 1) (PopIII_IMF_ms[i := Some m])
             (PopIII_IMF_IMFs[i := Some (q (PopIII_IMF s) (10 powr m) (PopIII_M_upp s)
                                          (1 / 10 ^ 8))])
         else None)
      else Some (i, PopIII_IMF_ms, PopIII_IMF_IMFs))"
  by pat_completeness auto
termination
proof (relation "measure (\<lambda>(q, s, m, i, a, b). nat \<lceil>(log 10 (PopIII_M_upp s) - m) * 100\<rceil>)")
  show "wf (measure (\<lambda>(q, s, m, i, a, b). nat \<lceil>(log 10 (PopIII_M_upp s) - m) * 100\<rceil>))"
    by simp
next
  fix q :: integrator and s :: model and m :: real and i :: nat and a b :: array
  assume lt: "m < log 10 (PopIII_M_upp s)"
  have "\<lceil>(log 10 (PopIII_M_upp s) - (m + 0.01)) * 100\<rceil>
        = \<lceil>(log 10 (PopIII_M_upp s) - m) * 100 - 1\<rceil>"
    by (simp add: algebra_simps)
  also have "\<dots> = \<lceil>(log 10 (PopIII_M_upp s) - m) * 100\<rceil> - 1"
    by simp
  finally have eq: "\<lceil>(log 10 (PopIII_M_upp s) - (m + 0.01)) * 100\<rceil>
                    = \<lceil>(log 10 (PopIII_M_upp s) - m) * 100\<rceil> - 1" .
  from lt have "0 < \<lceil>(log 10 (PopIII_M_upp s) - m) * 100\<rceil>"
    by simp
  with eq show "((q, s, m + 0.01, i + 1, a[i := Some m],
                  b[i := Some (q (PopIII_IMF s) (10 powr m) (PopIII_M_upp s) (1 / 10 ^ 8))]),
                 (q, s, m, i, a, b))
                \<in> measure (\<lambda>(q, s, m, i, a, b). nat \<lceil>(log 10 (PopIII_M_upp s) - m) * 100\<rceil>)"
    by simp
qed

text \<open>Lines 251-272: the cumulative Pop III IMF spline.\<close>

definition init_PopIII_IMF_spline :: "integrator \<Rightarrow> model \<Rightarrow> model option" where
  "init_PopIII_IMF_spline q s =
     do {
       let PopIII_IMF_ms = replicate 289 None;
       let PopIII_IMF_IMFs = replicate 289 None;
       let PopIII_IMF_ms = PopIII_IMF_ms[0 := Some (- 2)];
       let PopIII_IMF_IMFs =
             PopIII_IMF_IMFs[0 := Some (q (PopIII_IMF s) 0 (PopIII_M_upp s) (1 / 10 ^ 8))];
       (i, PopIII_IMF_ms, PopIII_IMF_IMFs) \<leftarrow>
          PopIII_IMF_loop q s (log 10 (PopIII_M_low s)) 1 PopIII_IMF_ms PopIII_IMF_IMFs;
       let PopIII_IMF_ms = PopIII_IMF_ms[287 := Some (log 10 (PopIII_M_upp s))];
       let PopIII_IMF_IMFs = PopIII_IMF_IMFs[287 := Some 0];
       let PopIII_IMF_ms = PopIII_IMF_ms[288 := Some 3];
       let PopIII_IMF_IMFs = PopIII_IMF_IMFs[288 := Some 0];
       x \<leftarrow> read_all PopIII_IMF_ms;
       y \<leftarrow> read_all PopIII_IMF_IMFs;
       Some (s\<lparr>PopIII_IMF_spline := create TypeGSLLinearInterpolator x y 289\<rparr>)
     }"

text \<open>Lines 274-313: the lifetime splines, from literal tables.\<close>

definition PopII_lifetime_ms :: "real list" where
  "PopII_lifetime_ms =
     [0.65, 0.7, 0.75, 0.8, 0.85, 0.9, 0.95, 1, 1.05, 1.1, 1.15, 1.2, 1.25,
      1.3, 1.35, 1.4, 1.45, 1.5, 1.55, 1.6, 1.65, 1.7, 1.75, 1.8, 1.85, 1.9,
      1.95, 2, 2.05, 2.1, 2.15, 2.2, 2.25, 2.3, 2.35, 2.4, 2.6, 2.8, 3, 3.2,
      3.4, 3.6, 3.8, 4, 4.2, 4.4, 4.6, 4.8, 5, 5.2, 5.4, 5.6, 5.8, 6, 6.2,
      6.4, 7, 8, 9, 10, 11, 12, 14, 16, 18, 20, 24, 28, 30, 40, 45, 50, 55,
      60, 65, 70, 75, 80, 90, 95, 100, 120, 150, 200, 250, 300, 350]"

definition PopII_lifetime_ts :: "real list" where
  "PopII_lifetime_ts =
     [10.452, 10.3415, 10.2362, 10.139, 10.0468, 9.95885, 9.87605, 9.79803,
      9.72399, 9.65217, 9.58335, 9.52138, 9.46703, 9.42591, 9.38266, 9.33495,
      9.28953, 9.24572, 9.20422, 9.16552, 9.12806, 9.0921, 9.05728, 9.02345,
      8.99101, 8.95935, 8.92926, 8.90003, 8.87177, 8.84446, 8.81782, 8.79194,
      8.7669, 8.74255, 8.7187, 8.69608, 8.60937, 8.53033, 8.45752, 8.39064,
      8.32889, 8.27122, 8.21763, 8.16709, 8.12, 8.07545, 8.03334, 7.99336,
      7.95561, 7.91966, 7.88551, 7.85298, 7.82191, 7.79234, 7.76385, 7.73664,
      7.66115, 7.55343, 7.46282, 7.38582, 7.31927, 7.26113, 7.16375, 7.08681,
      7.02325, 6.97053, 6.88722, 6.82377, 6.79741, 6.72284, 6.68824, 6.65918,
      6.63473, 6.61362, 6.59507, 6.57899, 6.56445, 6.55241, 6.52965, 6.52028,
      6.5111, 6.48241, 6.45054, 6.41528, 6.3914, 6.37373, 6.36056]"

definition PopIII_lifetime_ms :: "real list" where
  "PopIII_lifetime_ms =
     [0.7, 0.8, 0.9, 1, 1.1, 1.2, 1.3, 1.4, 1.5, 1.6, 1.8, 2, 2.5, 3, 4, 5,
      10, 15, 20, 30, 50, 70, 100, 500]"

definition PopIII_lifetime_ts :: "real list" where
  "PopIII_lifetime_ts =
     [1.32077, 1.13354, 0.947924, 0.78533, 0.637463, 0.516384, 0.399708,
      0.289454, 0.193159, 0.100413, - 0.062413, - 0.208425, - 0.493919,
      - 0.702468, - 0.979499, - 1.18585, - 1.75003, - 1.96392, - 2.08837,
      - 2.24245, - 2.39566, - 2.47468, - 2.54276, - 2.89056]"

definition init_lifetime_splines :: "model \<Rightarrow> model" where
  "init_lifetime_splines s0 =
     (let s = s0\<lparr>PopII_lifetime_spline :=
                  create TypeGSLCubicSplineInterpolator PopII_lifetime_ms PopII_lifetime_ts 87\<rparr>;
          s = s\<lparr>PopIII_lifetime_spline :=
                  create TypeGSLCubicSplineInterpolator PopIII_lifetime_ms PopIII_lifetime_ts 24\<rparr>
      in s)"

text \<open>Lines 315-325: the Pop III supernova energy spline and the energy integral.\<close>

definition ms :: "real list" where
  "ms = [0.7, 10, 35, 40, 50, 60, 70, 80, 90, 100, 140, 140 + 1 / 10 ^ 10,
         150, 170, 200, 270, 300, 500]"

definition Es :: "real list" where
  "Es = [0, 1, 1, 1, 1, 1, 1, 1, 1, 1, 1, 9, 16, 28, 44, 49, 50, 50]"

definition init_PopIII_E_SN :: "integrator \<Rightarrow> evaluator \<Rightarrow> model \<Rightarrow> model" where
  "init_PopIII_E_SN q ev s0 =
     (let s = s0\<lparr>PopIII_E_SN_spline := create TypeGSLLinearInterpolator ms Es 18\<rparr>;
          s = s\<lparr>PopIII_Eint :=
                  q (PopIII_EIMF ev s) (PopIII_M_SN_low s) (PopIII_M_upp s) (1 / 10 ^ 8)\<rparr>
      in s)"

text \<open>Lines 327-360: the feedback values.\<close>

definition init_feedback_values :: "model \<Rightarrow> model" where
  "init_feedback_values s0 =
     (let feedback_efficiency = 0.7;
          s = s0\<lparr>PopII_SNII_energy := 10 ^ 51 * feedback_efficiency\<rparr>;
          s = s\<lparr>PopII_SNII_mass := 0.191445322565\<rparr>;
          s = s\<lparr>PopII_SNII_metals := 0.0241439721018\<rparr>;
          s = s\<lparr>PopII_SNII_Fe := 0.000932719658516\<rparr>;
          s = s\<lparr>PopII_SNII_Mg := 0.00151412640705\<rparr>;
          s = s\<lparr>PopII_SNIa_energy := 10 ^ 51 * feedback_efficiency\<rparr>;
          s = s\<lparr>PopII_SNIa_mass := 0.00655147325196\<rparr>;
          s = s\<lparr>PopII_SNIa_metals := 0.00655147325196\<rparr>;
          s = s\<lparr>PopII_SNIa_Fe := 0.00165100587997\<rparr>;
          s = s\<lparr>PopII_SNIa_Mg := 0.000257789470044\<rparr>;
          s = s\<lparr>PopII_SW_energy := 10 ^ 50 * feedback_efficiency\<rparr>;
          s = s\<lparr>PopII_SW_end_time := 31.0\<rparr>;
          s = s\<lparr>PopII_SW_energy := PopII_SW_energy s / PopII_SW_end_time s\<rparr>;
          s = s\<lparr>PopIII_SN_energy := PopIII_Eint s * feedback_efficiency\<rparr>;
          s = s\<lparr>PopIII_SN_mass := 0.45\<rparr>;
          s = s\<lparr>PopIII_SN_metals := 0.026\<rparr>;
          s = s\<lparr>PopIII_SN_Fe := 0.0000932719658516\<rparr>;
          s = s\<lparr>PopIII_SN_Mg := 0.000151412640705\<rparr>;
          s = s\<lparr>PopIII_SW_energy := 10 ^ 51 * feedback_efficiency\<rparr>;
          s = s\<lparr>PopIII_SW_end_time := 16.7\<rparr>;
          s = s\<lparr>PopIII_SW_energy := PopIII_SW_energy s / PopIII_SW_end_time s\<rparr>
      in s)"

text \<open>
  \<^verbatim>\<open>initialize()\<close>, lines 184-361, runs on the object as the constructor finds it: \<open>s0\<close>
  is the content of the members before the call.
\<close>

definition initialize :: "integrator \<Rightarrow> evaluator \<Rightarrow> model \<Rightarrow> model option" where
  "initialize q ev s0 =
     do {
       let s = init_parameters s0;
       let s = init_integrals q s;
       let s = init_delay_norm q s;
       s \<leftarrow> init_SNIa_delay_spline q s;
       s \<leftarrow> init_PopIII_IMF_spline q s;
       let s = init_lifetime_splines s;
       let s = init_PopIII_E_SN q ev s;
       Some (init_feedback_values s)
     }"

section \<open>Feedback\<close>

text \<open>
  \<^verbatim>\<open>do_feedback\<close>, lines 379-383, has an empty body. The star particle and the particle
  vector are passed by pointer and by reference; the model returns them with the object.
\<close>

definition do_feedback :: "model \<Rightarrow> 'star \<Rightarrow> 'particles \<Rightarrow> real \<Rightarrow> model \<times> 'star \<times> 'particles" where
  "do_feedback s star particles dt = (s, star, particles)"

section \<open>Restart files\<close>

text \<open>
  Modelled from the spec: \<^verbatim>\<open>RestartFile\<close> is not part of the sources. The checkpoint
  writer and reader are "sequential write(scalar)/read(scalar&) primitives": a file is
  the sequence of the values written, \<open>rfile_write\<close> appends one and \<open>rfile_read\<close> takes the next.
\<close>

type_synonym RestartFile = "real list"

definition rfile_write :: "real \<Rightarrow> RestartFile \<Rightarrow> RestartFile" where
  "rfile_write v f = f @ [v]"

definition rfile_read :: "RestartFile \<Rightarrow> (real \<times> RestartFile) option" where
  "rfile_read f = (case f of [] \<Rightarrow> None | v # f' \<Rightarrow> Some (v, f'))"

text \<open>
  \<^verbatim>\<open>GSLInterpolator::dump(rfile)\<close> and \<^verbatim>\<open>GSLInterpolator::create(rfile)\<close> are outside
  the sources: they are the parameters \<open>sd\<close> and \<open>sc\<close>.
\<close>

type_synonym spline_dump = "spline \<Rightarrow> RestartFile \<Rightarrow> RestartFile"
type_synonym spline_create = "RestartFile \<Rightarrow> (spline \<times> RestartFile) option"

text \<open>\<^verbatim>\<open>dump\<close>, lines 390-454.\<close>

definition dump :: "spline_dump \<Rightarrow> model \<Rightarrow> RestartFile \<Rightarrow> RestartFile" where
  "dump sd s f0 =
     (let f = rfile_write (PopII_M_low s) f0;
          f = rfile_write (PopII_M_upp s) f;
          f = rfile_write (PopII_fac_IMF s) f;
          f = rfile_write (PopII_M_SNII_low s) f;
          f = rfile_write (PopII_M_SNIa_low s) f;
          f = rfile_write (PopII_M_SNIa_upp s) f;
          f = rfile_write (PopII_SNIa_delay_mu s) f;
          f = rfile_write (PopII_SNIa_delay_sigma s) f;
          f = rfile_write (PopII_SNIa_delay_norm1 s) f;
          f = rfile_write (PopII_SNIa_delay_norm2 s) f;
          f = rfile_write (PopIII_cutoff s) f;
          f = rfile_write (PopIII_M_low s) f;
          f = rfile_write (PopIII_M_upp s) f;
          f = rfile_write (PopIII_M_SN_low s) f;
          f = rfile_write (PopIII_M1 s) f;
          f = rfile_write (PopIII_M2 s) f;
          f = rfile_write (PopIII_M3 s) f;
          f = rfile_write (PopIII_fac s) f;
          f = rfile_write (PopIII_pw s) f;
          f = rfile_write (PopII_Mint s) f;
          f = rfile_write (PopII_NIIint s) f;
          f = rfile_write (PopII_NIaint s) f;
          f = rfile_write (PopIII_Mint s) f;
          f = rfile_write (PopIII_Nint s) f;
          f = rfile_write (PopIII_Eint s) f;
          f = sd (PopII_SNIa_delay_spline s) f;
          f = sd (PopIII_IMF_spline s) f;
          f = sd (PopII_lifetime_spline s) f;
          f = sd (PopIII_lifetime_spline s) f;
          f = sd (PopIII_E_SN_spline s) f;
          f = rfile_write (PopII_SNII_energy s) f;
          f = rfile_write (PopII_SNII_mass s) f;
          f = rfile_write (PopII_SNII_metals s) f;
          f = rfile_write (PopII_SNII_Fe s) f;
          f = rfile_write (PopII_SNII_Mg s) f;
          f = rfile_write (PopII_SNIa_energy s) f;
          f = rfile_write (PopII_SNIa_mass s) f;
          f = rfile_write (PopII_SNIa_metals s) f;
          f = rfile_write (PopII_SNIa_Fe s) f;
          f = rfile_write (PopII_SNIa_Mg s) f;
          f = rfile_write (PopII_SW_energy s) f;
          f = rfile_write (PopII_SW_end_time s) f;
          f = rfile_write (PopIII_SN_energy s) f;
          f = rfile_write (PopIII_SN_mass s) f;
          f = rfile_write (PopIII_SN_metals s) f;
          f = rfile_write (PopIII_SN_Fe s) f;
          f = rfile_write (PopIII_SN_Mg s) f;
          f = rfile_write (PopIII_SW_energy s) f;
          f = rfile_write (PopIII_SW_end_time s) f
      in f)"

text \<open>
  The restart constructor, lines 461-525: \<open>s0\<close> is the content of the members before
  the constructor runs. It returns the object and the rest of the file.
\<close>

definition restart :: "spline_create \<Rightarrow> model \<Rightarrow> RestartFile \<Rightarrow> (model \<times> RestartFile) option" where
  "restart sc s0 f0 =
     do {
       (v, f) \<leftarrow> rfile_read f0;
       let s = s0\<lparr>PopII_M_low := v\<rparr>;
       (v, f) \<leftarrow> rfile_read f;
       let s = s\<lparr>PopII_M_upp := v\<rparr>;
       (v, f) \<leftarrow> rfile_read f;
       let s = s\<lparr>PopII_fac_IMF := v\<rparr>;
       (v, f) \<leftarrow> rfile_read f;
       let s = s\<lparr>PopII_M_SNII_low := v\<rparr>;
       (v, f) \<leftarrow> rfile_read f;
       let s = s\<lparr>PopII_M_SNIa_low := v\<rparr>;
       (v, f) \<leftarrow> rfile_read f;
       let s = s\<lparr>PopII_M_SNIa_upp := v\<rparr>;
       (v, f) \<leftarrow> rfile_read f;
       let s = s\<lparr>PopII_SNIa_delay_mu := v\<rparr>;
       (v, f) \<leftarrow> rfile_read f;
       let s = s\<lparr>PopII_SNIa_delay_sigma := v\<rparr>;
       (v, f) \<leftarrow> rfile_read f;
       let s = s\<lparr>PopII_SNIa_delay_norm1 := v\<rparr>;
       (v, f) \<leftarrow> rfile_read f;
       let s = s\<lparr>PopII_SNIa_delay_norm2 := v\<rparr>;
       (v, f) \<leftarrow> rfile_read f;
       let s = s\<lparr>PopIII_cutoff := v\<rparr>;
       (v, f) \<leftarrow> rfile_read f;
       let s = s\<lparr>PopIII_M_low := v\<rparr>;
       (v, f) \<leftarrow> rfile_read f;
       let s = s\<lparr>PopIII_M_upp := v\<rparr>;
       (v, f) \<leftarrow> rfile_read f;
       let s = s\<lparr>PopIII_M_SN_low := v\<rparr>;
       (v, f) \<leftarrow> rfile_read f;
       let s = s\<lparr>PopIII_M1 := v\<rparr>;
       (v, f) \<leftarrow> rfile_read f;
       let s = s\<lparr>PopIII_M2 := v\<rparr>;
       (v, f) \<leftarrow> rfile_read f;
       let s = s\<lparr>PopIII_M3 := v\<rparr>;
       (v, f) \<leftarrow> rfile_read f;
       let s = s\<lparr>PopIII_fac := v\<rparr>;
       (v, f) \<leftarrow> rfile_read f;
       let s = s\<lparr>PopIII_pw := v\<rparr>;
       (v, f) \<leftarrow> rfile_read f;
       let s = s\<lparr>PopII_Mint := v\<rparr>;
       (v, f) \<leftarrow> rfile_read f;
       let s = s\<lparr>PopII_NIIint := v\<rparr>;
       (v, f) \<leftarrow> rfile_read f;
       let s = s\<lparr>PopII_NIaint := v\<rparr>;
       (v, f) \<leftarrow> rfile_read f;
       let s = s\<lparr>PopIII_Mint := v\<rparr>;
       (v, f) \<leftarrow> rfile_read f;
       let s = s\<lparr>PopIII_Nint := v\<rparr>;
       (v, f) \<leftarrow> rfile_read f;
       let s = s\<lparr>PopIII_Eint := v\<rparr>;
       (v, f) \<leftarrow> sc f;
       let s = s\<lparr>PopII_SNIa_delay_spline := v\<rparr>;
       (v, f) \<leftarrow> sc f;
       let s = s\<lparr>PopIII_IMF_spline := v\<rparr>;
       (v, f) \<leftarrow> sc f;
       let s = s\<lparr>PopII_lifetime_spline := v\<rparr>;
       (v, f) \<leftarrow> sc f;
       let s = s\<lparr>PopIII_lifetime_spline := v\<rparr>;
       (v, f) \<leftarrow> sc f;
       let s = s\<lparr>PopIII_E_SN_spline := v\<rparr>;
       (v, f) \<leftarrow> rfile_read f;
       let s = s\<lparr>PopII_SNII_energy := v\<rparr>;
       (v, f) \<leftarrow> rfile_read f;
       let s = s\<lparr>PopII_SNII_mass := v\<rparr>;
       (v, f) \<leftarrow> rfile_read f;
       let s = s\<lparr>PopII_SNII_metals := v\<rparr>;
       (v, f) \<leftarrow> rfile_read f;
       let s = s\<lparr>PopII_SNII_Fe := v\<rparr>;
       (v, f) \<leftarrow> rfile_read f;
       let s = s\<lparr>PopII_SNII_Mg := v\<rparr>;
       (v, f) \<leftarrow> rfile_read f;
       let s = s\<lparr>PopII_SNIa_energy := v\<rparr>;
       (v, f) \<leftarrow> rfile_read f;
       let s = s\<lparr>PopII_SNIa_mass := v\<rparr>;
       (v, f) \<leftarrow> rfile_read f;
       let s = s\<lparr>PopII_SNIa_metals := v\<rparr>;
       (v, f) \<leftarrow> rfile_read f;
       let s = s\<lparr>PopII_SNIa_Fe := v\<rparr>;
       (v, f) \<leftarrow> rfile_read f;
       let s = s\<lparr>PopII_SNIa_Mg := v\<rparr>;
       (v, f) \<leftarrow> rfile_read f;
       let s = s\<lparr>PopII_SW_energy := v\<rparr>;
       (v, f) \<leftarrow> rfile_read f;
       let s = s\<lparr>PopII_SW_end_time := v\<rparr>;
       (v, f) \<leftarrow> rfile_read f;
       let s = s\<lparr>PopIII_SN_energy := v\<rparr>;
       (v, f) \<leftarrow> rfile_read f;
       let s = s\<lparr>PopIII_SN_mass := v\<rparr>;
       (v, f) \<leftarrow> rfile_read f;
       let s = s\<lparr>PopIII_SN_metals := v\<rparr>;
       (v, f) \<leftarrow> rfile_read f;
       let s = s\<lparr>PopIII_SN_Fe := v\<rparr>;
       (v, f) \<leftarrow> rfile_read f;
       let s = s\<lparr>PopIII_SN_Mg := v\<rparr>;
       (v, f) \<leftarrow> rfile_read f;
       let s = s\<lparr>PopIII_SW_energy := v\<rparr>;
       (v, f) \<leftarrow> rfile_read f;
       let s = s\<lparr>PopIII_SW_end_time := v\<rparr>;
       Some (s, f)
     }"

section \<open>Closed forms of the sampled arrays\<close>

text \<open>
  The arrays that the two loops of \<open>initialize\<close> hand to the interpolator, written as
  lists over the integrand \<open>f\<close>: a padding knot, the samples of the loop, and the two
  trailing knots. The lemmas \<open>init_SNIa_delay_spline_eq\<close> and
  \<open>init_PopIII_IMF_spline_eq\<close> prove that the code computes them.
\<close>

definition SNIa_delay_ts :: "integrator \<Rightarrow> (real \<Rightarrow> real) \<Rightarrow> real list" where
  "SNIa_delay_ts q f =
     (- 2 + q f 0.03 (10 powr (log 10 0.03)) (1 / 10 ^ 8)) #
     map (\<lambda>k. log 10 0.03 + 0.1 * real k) [0..<27] @ [log 10 13.6, log 10 13.8]"

definition SNIa_delay_cumul :: "integrator \<Rightarrow> (real \<Rightarrow> real) \<Rightarrow> real list" where
  "SNIa_delay_cumul q f =
     0 # map (\<lambda>k. q f 0.03 (10 powr (log 10 0.03 + 0.1 * real k)) (1 / 10 ^ 8))
           [0..<27] @ [1, 1]"

definition PopIII_IMF_grid :: "real list" where
  "PopIII_IMF_grid =
     - 2 # map (\<lambda>k. log 10 0.7 + 0.01 * real k) [0..<286] @ [log 10 500, 3]"

definition PopIII_IMF_cumul :: "integrator \<Rightarrow> (real \<Rightarrow> real) \<Rightarrow> real list" where
  "PopIII_IMF_cumul q f =
     q f 0 500 (1 / 10 ^ 8) #
     map (\<lambda>k. q f (10 powr (log 10 0.7 + 0.01 * real k)) 500 (1 / 10 ^ 8))
       [0..<286] @ [0, 0]"

section \<open>Contracts of the collaborators\<close>



definition qag_linear :: "integrator \<Rightarrow> bool" where
  "qag_linear q \<longleftrightarrow>
     (\<forall>f c a b tol. q (\<lambda>x. c * f x) a b tol = c * q f a b tol) \<and>
     (\<forall>f g a b tol. q (\<lambda>x. f x + g x) a b tol = q f a b tol + q g a b tol)"


text \<open>An interpolator passes through the knots of the spline it evaluates.\<close>

definition interpolates :: "evaluator \<Rightarrow> spline \<Rightarrow> bool" where
  "interpolates ev sp \<longleftrightarrow>
     (\<forall>i < length (spline_xs sp). ev sp (spline_xs sp ! i) = spline_ys sp ! i)"

text \<open>
  The interpolator's \<^verbatim>\<open>dump\<close> appends values to the file, and its \<^verbatim>\<open>create\<close> reads
  the spline back from them and stops behind them.
\<close>

definition spline_roundtrip :: "spline_dump \<Rightarrow> spline_create \<Rightarrow> bool" where
  "spline_roundtrip sd sc \<longleftrightarrow>
     (\<forall>sp f. \<exists>e. sd sp f = f @ e \<and> (\<forall>r. sc (e @ r) = Some (sp, r)))"

section \<open>Concrete collaborators\<close>

text \<open>
  Instances of the parameters, on which the statements are evaluated: a quadrature rule
  with the single node 0.05 (the centre of the first part of the delay time
  distribution), piecewise linear interpolation, a spline format for restart files, and
  an object whose members are all zero before the constructor runs.
\<close>

definition one_point_rule :: integrator where
  "one_point_rule f a b tol = (if a < 0.05 \<and> 0.05 \<le> b then f 0.05 else 0)"



fun linear_interp :: "real list \<Rightarrow> real list \<Rightarrow> real \<Rightarrow> real" where
  "linear_interp (x0 # x1 # x) (y0 # y1 # y) t =
     (if t \<le> x1 then y0 + (y1 - y0) / (x1 - x0) * (t - x0)
      else linear_interp (x1 # x) (y1 # y) t)"
| "linear_interp x y t = 0"

definition linear_eval :: evaluator where
  "linear_eval sp t = linear_interp (spline_xs sp) (spline_ys sp) t"

definition kind_code :: "interp_kind \<Rightarrow> real" where
  "kind_code k = (case k of TypeGSLLinearInterpolator \<Rightarrow> 0 | TypeGSLCubicSplineInterpolator \<Rightarrow> 1)"

definition list_dump :: spline_dump where
  "list_dump sp f =
     f @ [kind_code (spline_kind sp), real (length (spline_xs sp))] @ spline_xs sp @
       [real (length (spline_ys sp))] @ spline_ys sp"

definition list_create :: spline_create where
  "list_create f =
     (case f of
        k # n # f1 \<Rightarrow>
          (case drop (nat \<lfloor>n\<rfloor>) f1 of
             n' # f2 \<Rightarrow>
               Some (\<lparr>spline_kind = (if k = 0 then TypeGSLLinearInterpolator
                                      else TypeGSLCubicSplineInterpolator),
                      spline_xs = take (nat \<lfloor>n\<rfloor>) f1,
                      spline_ys = take (nat \<lfloor>n'\<rfloor>) f2\<rparr>,
                     drop (nat \<lfloor>n'\<rfloor>) f2)
           | [] \<Rightarrow> None)
      | _ \<Rightarrow> None)"

definition no_spline :: spline where
  "no_spline = \<lparr>spline_kind = TypeGSLLinearInterpolator, spline_xs = [], spline_ys = []\<rparr>"

definition blank :: model where
  "blank =
     \<lparr>PopII_M_low = 0,
      PopII_M_upp = 0,
      PopII_fac_IMF = 0,
      PopII_M_SNII_low = 0,
      PopII_M_SNIa_low = 0,
      PopII_M_SNIa_upp = 0,
      PopII_SNIa_delay_mu = 0,
      PopII_SNIa_delay_sigma = 0,
      PopII_SNIa_delay_norm1 = 0,
      PopII_SNIa_delay_norm2 = 0,
      PopIII_cutoff = 0,
      PopIII_M_low = 0,
      PopIII_M_upp = 0,
      PopIII_M_SN_low = 0,
      PopIII_M1 = 0,
      PopIII_M2 = 0,
      PopIII_M3 = 0,
      PopIII_fac = 0,
      PopIII_pw = 0,
      PopII_Mint = 0,
      PopII_NIIint = 0,
      PopII_NIaint = 0,
      PopIII_Mint = 0,
      PopIII_Nint = 0,
      PopIII_Eint = 0,
      PopII_SNIa_delay_spline = no_spline,
      PopIII_IMF_spline = no_spline,
      PopII_lifetime_spline = no_spline,
      PopIII_lifetime_spline = no_spline,
      PopIII_E_SN_spline = no_spline,
      PopII_SNII_energy = 0,
      PopII_SNII_mass = 0,
      PopII_SNII_metals = 0,
      PopII_SNII_Fe = 0,
      PopII_SNII_Mg = 0,
      PopII_SNIa_energy = 0,
      PopII_SNIa_mass = 0,
      PopII_SNIa_metals = 0,
      PopII_SNIa_Fe = 0,
      PopII_SNIa_Mg = 0,
      PopII_SW_energy = 0,
      PopII_SW_end_time = 0,
      PopIII_SN_energy = 0,
      PopIII_SN_mass = 0,
      PopIII_SN_metals = 0,
      PopIII_SN_Fe = 0,
      PopIII_SN_Mg = 0,
      PopIII_SW_energy = 0,
      PopIII_SW_end_time = 0\<rparr>"

text \<open>The objects that the constructor builds with these collaborators.\<close>

definition built :: model where
  "built = the (initialize one_point_rule linear_eval blank)"



section \<open>The loops run to completion\<close>

declare SNIa_delay_loop.simps [simp del]
declare PopIII_IMF_loop.simps [simp del]

lemma log10_gt: 
  fixes x :: real
  assumes "0 < x" "0 < d" "(10::real) ^ p < x ^ d"
  shows "real p / real d < log 10 x"
proof -
  have "(10::real) powr (real p / real d) < x"
  proof (rule ccontr)
    assume "\<not> (10::real) powr (real p / real d) < x"
    then have "x \<le> 10 powr (real p / real d)" by simp
    then have "x ^ d \<le> (10 powr (real p / real d)) ^ d"
      using assms(1) by (intro power_mono) auto
    also have "\<dots> = 10 powr (real p / real d * real d)"
      by (simp add: powr_power)
    also have "\<dots> = 10 ^ p"
      using assms(2) by (simp add: powr_realpow)
    finally show False using assms(3) by simp
  qed
  then show ?thesis using assms(1) by (simp add: less_log_iff)
qed

lemma log10_le: 
  fixes x :: real
  assumes "0 < x" "0 < d" "x ^ d \<le> (10::real) ^ p"
  shows "log 10 x \<le> real p / real d"
proof -
  have "x \<le> (10::real) powr (real p / real d)"
  proof (rule ccontr)
    assume "\<not> x \<le> (10::real) powr (real p / real d)"
    then have "10 powr (real p / real d) < x" by simp
    then have "(10 powr (real p / real d)) ^ d < x ^ d"
      using assms(2) by (intro power_strict_mono) auto
    also have "(10 powr (real p / real d)) ^ d = 10 powr (real p / real d * real d)"
      by (simp add: powr_power)
    also have "\<dots> = 10 ^ p"
      using assms(2) by (simp add: powr_realpow)
    finally show False using assms(3) by simp
  qed
  then show ?thesis using assms(1) by (simp add: log_le_iff)
qed

lemma log10_quot: "log 10 (1360 / 3 :: real) = log 10 13.6 - log 10 0.03"
  by (subst log_divide_pos [symmetric]) simp_all

lemma log10_quot': "log 10 (5000 / 7 :: real) = log 10 500 - log 10 0.7"
  by (subst log_divide_pos [symmetric]) simp_all

lemma delay_grid_last: "log 10 0.03 + 2.6 < log 10 (13.6::real)"
proof -
  have "real 13 / real 5 < log 10 (1360 / 3)"
    by (rule log10_gt) (simp_all add: power_divide)
  then show ?thesis by (simp add: log10_quot)
qed

lemma delay_grid_stop: "log 10 (13.6::real) \<le> log 10 0.03 + 2.7"
proof -
  have "log 10 (1360 / 3) \<le> real 8 / real 3"
    by (rule log10_le) (simp_all add: power_divide)
  then show ?thesis by (simp add: log10_quot)
qed

lemma mass_grid_last: "log 10 0.7 + 2.85 < log 10 (500::real)"
proof -
  have "real 57 / real 20 < log 10 (5000 / 7)"
    by (rule log10_gt) (simp_all add: power_divide)
  then show ?thesis by (simp add: log10_quot')
qed

lemma mass_grid_stop: "log 10 (500::real) \<le> log 10 0.7 + 2.86"
proof -
  have "log 10 (5000 / 7) \<le> real 20 / real 7"
    by (rule log10_le) (simp_all add: power_divide)
  then show ?thesis by (simp add: log10_quot')
qed

lemma map_upt_shift: "map f [0..<Suc n] = f 0 # map (\<lambda>k. f (Suc k)) [0..<n]"
  by (simp add: upt_conv_Cons map_Suc_upt [symmetric] del: upt_Suc)

lemma SNIa_delay_loop_run:
  assumes "length ts = length cumul" and "i + n \<le> length ts"
    and "\<forall>k<n. t + 0.1 * real k < log 10 13.6"
    and "\<not> t + 0.1 * real n < log 10 13.6"
  shows "SNIa_delay_loop q s t i ts cumul =
    Some (i + n,
          take i ts @ map (\<lambda>k. Some (t + 0.1 * real k)) [0..<n] @ drop (i + n) ts,
          take i cumul @
            map (\<lambda>k. Some (q (PopII_SNIa_delay s) 0.03 (10 powr (t + 0.1 * real k)) (1 / 10 ^ 8)))
              [0..<n] @ drop (i + n) cumul)"
  using assms
proof (induction n arbitrary: t i ts cumul)
  case 0
  then show ?case by (subst SNIa_delay_loop.simps) simp
next
  case (Suc n)
  from Suc.prems(3) have lt: "t < log 10 13.6" by force
  from Suc.prems(1,2) have bound: "i < length ts" "i < length cumul" by simp_all
  let ?c = "Some (q (PopII_SNIa_delay s) 0.03 (10 powr t) (1 / 10 ^ 8))"
  have step: "SNIa_delay_loop q s t i ts cumul =
      SNIa_delay_loop q s (t + 0.1) (i + 1) (ts[i := Some t]) (cumul[i := ?c])"
    using lt bound by (subst SNIa_delay_loop.simps) simp
  have sh: "\<And>k. t + 0.1 + 0.1 * real k = t + 0.1 * real (Suc k)"
    by (simp add: field_simps)
  have a: "\<forall>k<n. t + 0.1 + 0.1 * real k < log 10 13.6"
    unfolding sh using Suc.prems(3) by blast
  have b: "\<not> t + 0.1 + 0.1 * real n < log 10 13.6"
    unfolding sh using Suc.prems(4) by blast
  have ih: "SNIa_delay_loop q s (t + 0.1) (i + 1) (ts[i := Some t]) (cumul[i := ?c]) =
    Some (i + 1 + n,
          take (i + 1) (ts[i := Some t]) @ map (\<lambda>k. Some (t + 0.1 + 0.1 * real k)) [0..<n] @
            drop (i + 1 + n) (ts[i := Some t]),
          take (i + 1) (cumul[i := ?c]) @
            map (\<lambda>k. Some (q (PopII_SNIa_delay s) 0.03 (10 powr (t + 0.1 + 0.1 * real k)) (1 / 10 ^ 8)))
              [0..<n] @ drop (i + 1 + n) (cumul[i := ?c]))"
    using Suc.prems(1,2) a b by (intro Suc.IH) simp_all
  have t1: "take (i + 1) (ts[i := Some t]) = take i ts @ [Some t]"
    using bound by (simp add: take_Suc_conv_app_nth)
  have t2: "take (i + 1) (cumul[i := ?c]) = take i cumul @ [?c]"
    using bound by (simp add: take_Suc_conv_app_nth)
  show ?case
    unfolding step ih t1 t2 map_upt_shift sh by simp
qed

lemma read_all_Nil: "read_all [] = Some []"
  by (simp add: read_all_def)

lemma read_all_Cons: "read_all (Some a # l) = map_option ((#) a) (read_all l)"
  by (simp add: read_all_def)

lemma read_all_map_Some: "read_all (map (\<lambda>k. Some (f k)) l) = Some (map f l)"
  by (auto simp add: read_all_def)

lemma read_all_append:
  "read_all (l1 @ l2) = Option.bind (read_all l1) (\<lambda>a. map_option ((@) a) (read_all l2))"
  by (simp add: read_all_def)

lemmas read_all_simps = read_all_Nil read_all_Cons read_all_map_Some read_all_append

lemma array30: "(replicate 30 None)[0 := Some a] = Some a # replicate 27 None @ [None, None]"
  by (simp add: numeral_eq_Suc)

lemma delay_grid_in: "\<forall>k<27. log 10 0.03 + 0.1 * real k < log 10 13.6"
proof (intro allI impI)
  fix k :: nat assume "k < 27"
  then have "real k \<le> 26" by simp
  then have "log 10 0.03 + 0.1 * real k \<le> log 10 0.03 + 2.6" by simp
  with delay_grid_last show "log 10 0.03 + 0.1 * real k < log 10 13.6" by simp
qed

lemma delay_grid_out: "\<not> log 10 0.03 + 0.1 * real 27 < log 10 13.6"
  using delay_grid_stop by simp

lemma SNIa_delay_loop_init:
  "SNIa_delay_loop q s (log 10 0.03) 1 ((replicate 30 None)[0 := Some (- 2)])
       ((replicate 30 None)[0 := Some 0]) =
   Some (28,
     Some (- 2) # map (\<lambda>k. Some (log 10 0.03 + 0.1 * real k)) [0..<27] @ [None, None],
     Some 0 # map (\<lambda>k. Some (q (PopII_SNIa_delay s) 0.03
                     (10 powr (log 10 0.03 + 0.1 * real k)) (1 / 10 ^ 8))) [0..<27] @ [None, None])"
  unfolding array30
  by (subst SNIa_delay_loop_run [where n = 27, OF _ _ delay_grid_in delay_grid_out]) simp_all

lemma init_SNIa_delay_spline_eq:
  "init_SNIa_delay_spline q s =
     Some (s\<lparr>PopII_SNIa_delay_spline :=
       \<lparr>spline_kind = TypeGSLCubicSplineInterpolator,
        spline_xs = SNIa_delay_ts q (PopII_SNIa_delay s),
        spline_ys = SNIa_delay_cumul q (PopII_SNIa_delay s)\<rparr>\<rparr>)"
  unfolding init_SNIa_delay_spline_def Let_def SNIa_delay_loop_init
  by (simp add: list_update_append nth_append read_all_simps create_def
      SNIa_delay_ts_def SNIa_delay_cumul_def del: upt_Suc)

lemma PopIII_IMF_loop_run:
  assumes "length a = length b" and "i + n \<le> length a"
    and "\<forall>k<n. m + 0.01 * real k < log 10 (PopIII_M_upp s)"
    and "\<not> m + 0.01 * real n < log 10 (PopIII_M_upp s)"
  shows "PopIII_IMF_loop q s m i a b =
    Some (i + n,
          take i a @ map (\<lambda>k. Some (m + 0.01 * real k)) [0..<n] @ drop (i + n) a,
          take i b @
            map (\<lambda>k. Some (q (PopIII_IMF s) (10 powr (m + 0.01 * real k)) (PopIII_M_upp s)
                             (1 / 10 ^ 8)))
              [0..<n] @ drop (i + n) b)"
  using assms
proof (induction n arbitrary: m i a b)
  case 0
  then show ?case by (subst PopIII_IMF_loop.simps) simp
next
  case (Suc n)
  from Suc.prems(3) have lt: "m < log 10 (PopIII_M_upp s)" by force
  from Suc.prems(1,2) have bound: "i < length a" "i < length b" by simp_all
  let ?c = "Some (q (PopIII_IMF s) (10 powr m) (PopIII_M_upp s) (1 / 10 ^ 8))"
  have step: "PopIII_IMF_loop q s m i a b =
      PopIII_IMF_loop q s (m + 0.01) (i + 1) (a[i := Some m]) (b[i := ?c])"
    using lt bound by (subst PopIII_IMF_loop.simps) simp
  have sh: "\<And>k. m + 0.01 + 0.01 * real k = m + 0.01 * real (Suc k)"
    by (simp add: field_simps)
  have c: "\<forall>k<n. m + 0.01 + 0.01 * real k < log 10 (PopIII_M_upp s)"
    unfolding sh using Suc.prems(3) by blast
  have d: "\<not> m + 0.01 + 0.01 * real n < log 10 (PopIII_M_upp s)"
    unfolding sh using Suc.prems(4) by blast
  have ih: "PopIII_IMF_loop q s (m + 0.01) (i + 1) (a[i := Some m]) (b[i := ?c]) =
    Some (i + 1 + n,
          take (i + 1) (a[i := Some m]) @ map (\<lambda>k. Some (m + 0.01 + 0.01 * real k)) [0..<n] @
            drop (i + 1 + n) (a[i := Some m]),
          take (i + 1) (b[i := ?c]) @
            map (\<lambda>k. Some (q (PopIII_IMF s) (10 powr (m + 0.01 + 0.01 * real k))
                             (PopIII_M_upp s) (1 / 10 ^ 8)))
              [0..<n] @ drop (i + 1 + n) (b[i := ?c]))"
    using Suc.prems(1,2) c d by (intro Suc.IH) simp_all
  have t1: "take (i + 1) (a[i := Some m]) = take i a @ [Some m]"
    using bound by (simp add: take_Suc_conv_app_nth)
  have t2: "take (i + 1) (b[i := ?c]) = take i b @ [?c]"
    using bound by (simp add: take_Suc_conv_app_nth)
  show ?case
    unfolding step ih t1 t2 map_upt_shift sh by simp
qed

lemma array289: "(replicate 289 None)[0 := Some a] = Some a # replicate 286 None @ [None, None]"
proof -
  have "replicate 289 None = replicate (1 + (286 + 2)) (None :: 'a option)" by simp
  also have "\<dots> = None # replicate 286 None @ [None, None]"
    unfolding replicate_add by (simp add: numeral_2_eq_2)
  finally show ?thesis by simp
qed

lemma mass_grid_in: "\<forall>k<286. log 10 0.7 + 0.01 * real k < log 10 500"
proof (intro allI impI)
  fix k :: nat assume "k < 286"
  then have "real k \<le> 285" by simp
  then have "log 10 0.7 + 0.01 * real k \<le> log 10 0.7 + 2.85" by simp
  with mass_grid_last show "log 10 0.7 + 0.01 * real k < log 10 500" by simp
qed

lemma mass_grid_out: "\<not> log 10 0.7 + 0.01 * real 286 < log 10 500"
  using mass_grid_stop by simp

lemma PopIII_IMF_loop_init:
  assumes "PopIII_M_low s = 0.7" and "PopIII_M_upp s = 500"
  shows "PopIII_IMF_loop q s (log 10 (PopIII_M_low s)) 1 ((replicate 289 None)[0 := Some (- 2)])
       ((replicate 289 None)[0 := Some (q (PopIII_IMF s) 0 (PopIII_M_upp s) (1 / 10 ^ 8))]) =
   Some (287,
     Some (- 2) # map (\<lambda>k. Some (log 10 0.7 + 0.01 * real k)) [0..<286] @ [None, None],
     Some (q (PopIII_IMF s) 0 500 (1 / 10 ^ 8)) #
       map (\<lambda>k. Some (q (PopIII_IMF s) (10 powr (log 10 0.7 + 0.01 * real k)) 500
                       (1 / 10 ^ 8))) [0..<286] @ [None, None])"
proof -
  have in': "\<forall>k<286. log 10 0.7 + 0.01 * real k < log 10 (PopIII_M_upp s)"
    using mass_grid_in by (simp add: assms)
  have out': "\<not> log 10 0.7 + 0.01 * real 286 < log 10 (PopIII_M_upp s)"
    using mass_grid_out by (simp add: assms)
  show ?thesis
    unfolding array289 assms(1)
    by (subst PopIII_IMF_loop_run [where n = 286, OF _ _ in' out']) (simp_all add: assms)
qed

lemma init_PopIII_IMF_spline_eq:
  assumes "PopIII_M_low s = 0.7" and "PopIII_M_upp s = 500"
  shows "init_PopIII_IMF_spline q s =
     Some (s\<lparr>PopIII_IMF_spline :=
       \<lparr>spline_kind = TypeGSLLinearInterpolator,
        spline_xs = PopIII_IMF_grid,
        spline_ys = PopIII_IMF_cumul q (PopIII_IMF s)\<rparr>\<rparr>)"
  unfolding init_PopIII_IMF_spline_def Let_def PopIII_IMF_loop_init [OF assms]
  by (simp add: list_update_append nth_append read_all_simps create_def assms
      PopIII_IMF_grid_def PopIII_IMF_cumul_def del: upt_Suc)

section \<open>What each stage of the initialisation changes\<close>

lemma init_parameters_sel [simp]:
  shows "PopII_M_low (init_parameters s) = 0.07"
    and "PopII_M_upp (init_parameters s) = 100"
    and "PopII_fac_IMF (init_parameters s) = 1 / PopII_IMF_sub1 1"
    and "PopII_M_SNII_low (init_parameters s) = 8"
    and "PopII_M_SNIa_low (init_parameters s) = 3"
    and "PopII_M_SNIa_upp (init_parameters s) = 8"
    and "PopII_SNIa_delay_mu (init_parameters s) = 0.05"
    and "PopII_SNIa_delay_sigma (init_parameters s) = 0.01"
    and "PopII_SNIa_delay_norm1 (init_parameters s) = 1"
    and "PopII_SNIa_delay_norm2 (init_parameters s) = 1"
    and "PopIII_cutoff (init_parameters s) = - 5"
    and "PopIII_M_low (init_parameters s) = 0.7"
    and "PopIII_M_upp (init_parameters s) = 500"
    and "PopIII_M_SN_low (init_parameters s) = 10"
    and "PopIII_M1 (init_parameters s) = log 10 0.7"
    and "PopIII_M2 (init_parameters s) = 1.51130759"
    and "PopIII_M3 (init_parameters s) = log 10 500"
    and "PopIII_fac (init_parameters s) = 708.92544818"
    and "PopIII_pw (init_parameters s) = 2.8008394"
  by (simp_all add: init_parameters_def Let_def)

lemma init_integrals_sel [simp]:
  shows "PopII_M_low (init_integrals q s) = PopII_M_low s"
    and "PopII_M_upp (init_integrals q s) = PopII_M_upp s"
    and "PopII_fac_IMF (init_integrals q s) = PopII_fac_IMF s"
    and "PopII_M_SNII_low (init_integrals q s) = PopII_M_SNII_low s"
    and "PopII_M_SNIa_low (init_integrals q s) = PopII_M_SNIa_low s"
    and "PopII_M_SNIa_upp (init_integrals q s) = PopII_M_SNIa_upp s"
    and "PopII_SNIa_delay_mu (init_integrals q s) = PopII_SNIa_delay_mu s"
    and "PopII_SNIa_delay_sigma (init_integrals q s) = PopII_SNIa_delay_sigma s"
    and "PopII_SNIa_delay_norm1 (init_integrals q s) = PopII_SNIa_delay_norm1 s"
    and "PopII_SNIa_delay_norm2 (init_integrals q s) = PopII_SNIa_delay_norm2 s"
    and "PopIII_cutoff (init_integrals q s) = PopIII_cutoff s"
    and "PopIII_M_low (init_integrals q s) = PopIII_M_low s"
    and "PopIII_M_upp (init_integrals q s) = PopIII_M_upp s"
    and "PopIII_M_SN_low (init_integrals q s) = PopIII_M_SN_low s"
    and "PopIII_M1 (init_integrals q s) = PopIII_M1 s"
    and "PopIII_M2 (init_integrals q s) = PopIII_M2 s"
    and "PopIII_M3 (init_integrals q s) = PopIII_M3 s"
    and "PopIII_fac (init_integrals q s) = PopIII_fac s"
    and "PopIII_pw (init_integrals q s) = PopIII_pw s"
  by (simp_all add: init_integrals_def Let_def)

lemma init_delay_norm_sel [simp]:
  shows "PopII_M_low (init_delay_norm q s) = PopII_M_low s"
    and "PopII_M_upp (init_delay_norm q s) = PopII_M_upp s"
    and "PopII_fac_IMF (init_delay_norm q s) = PopII_fac_IMF s"
    and "PopII_M_SNII_low (init_delay_norm q s) = PopII_M_SNII_low s"
    and "PopII_M_SNIa_low (init_delay_norm q s) = PopII_M_SNIa_low s"
    and "PopII_M_SNIa_upp (init_delay_norm q s) = PopII_M_SNIa_upp s"
    and "PopII_SNIa_delay_mu (init_delay_norm q s) = PopII_SNIa_delay_mu s"
    and "PopII_SNIa_delay_sigma (init_delay_norm q s) = PopII_SNIa_delay_sigma s"
    and "PopIII_cutoff (init_delay_norm q s) = PopIII_cutoff s"
    and "PopIII_M_low (init_delay_norm q s) = PopIII_M_low s"
    and "PopIII_M_upp (init_delay_norm q s) = PopIII_M_upp s"
    and "PopIII_M_SN_low (init_delay_norm q s) = PopIII_M_SN_low s"
    and "PopIII_M1 (init_delay_norm q s) = PopIII_M1 s"
    and "PopIII_M2 (init_delay_norm q s) = PopIII_M2 s"
    and "PopIII_M3 (init_delay_norm q s) = PopIII_M3 s"
    and "PopIII_fac (init_delay_norm q s) = PopIII_fac s"
    and "PopIII_pw (init_delay_norm q s) = PopIII_pw s"
  by (simp_all add: init_delay_norm_def Let_def)

lemma init_lifetime_splines_sel [simp]:
  shows "PopII_M_low (init_lifetime_splines s) = PopII_M_low s"
    and "PopII_M_upp (init_lifetime_splines s) = PopII_M_upp s"
    and "PopII_fac_IMF (init_lifetime_splines s) = PopII_fac_IMF s"
    and "PopII_M_SNII_low (init_lifetime_splines s) = PopII_M_SNII_low s"
    and "PopII_M_SNIa_low (init_lifetime_splines s) = PopII_M_SNIa_low s"
    and "PopII_M_SNIa_upp (init_lifetime_splines s) = PopII_M_SNIa_upp s"
    and "PopII_SNIa_delay_mu (init_lifetime_splines s) = PopII_SNIa_delay_mu s"
    and "PopII_SNIa_delay_sigma (init_lifetime_splines s) = PopII_SNIa_delay_sigma s"
    and "PopII_SNIa_delay_norm1 (init_lifetime_splines s) = PopII_SNIa_delay_norm1 s"
    and "PopII_SNIa_delay_norm2 (init_lifetime_splines s) = PopII_SNIa_delay_norm2 s"
    and "PopIII_cutoff (init_lifetime_splines s) = PopIII_cutoff s"
    and "PopIII_M_low (init_lifetime_splines s) = PopIII_M_low s"
    and "PopIII_M_upp (init_lifetime_splines s) = PopIII_M_upp s"
    and "PopIII_M_SN_low (init_lifetime_splines s) = PopIII_M_SN_low s"
    and "PopIII_M1 (init_lifetime_splines s) = PopIII_M1 s"
    and "PopIII_M2 (init_lifetime_splines s) = PopIII_M2 s"
    and "PopIII_M3 (init_lifetime_splines s) = PopIII_M3 s"
    and "PopIII_fac (init_lifetime_splines s) = PopIII_fac s"
    and "PopIII_pw (init_lifetime_splines s) = PopIII_pw s"
    and "PopII_SNIa_delay_spline (init_lifetime_splines s) = PopII_SNIa_delay_spline s"
    and "PopIII_IMF_spline (init_lifetime_splines s) = PopIII_IMF_spline s"
  by (simp_all add: init_lifetime_splines_def Let_def)

lemma init_PopIII_E_SN_sel [simp]:
  shows "PopII_M_low (init_PopIII_E_SN q ev s) = PopII_M_low s"
    and "PopII_M_upp (init_PopIII_E_SN q ev s) = PopII_M_upp s"
    and "PopII_fac_IMF (init_PopIII_E_SN q ev s) = PopII_fac_IMF s"
    and "PopII_M_SNII_low (init_PopIII_E_SN q ev s) = PopII_M_SNII_low s"
    and "PopII_M_SNIa_low (init_PopIII_E_SN q ev s) = PopII_M_SNIa_low s"
    and "PopII_M_SNIa_upp (init_PopIII_E_SN q ev s) = PopII_M_SNIa_upp s"
    and "PopII_SNIa_delay_mu (init_PopIII_E_SN q ev s) = PopII_SNIa_delay_mu s"
    and "PopII_SNIa_delay_sigma (init_PopIII_E_SN q ev s) = PopII_SNIa_delay_sigma s"
    and "PopII_SNIa_delay_norm1 (init_PopIII_E_SN q ev s) = PopII_SNIa_delay_norm1 s"
    and "PopII_SNIa_delay_norm2 (init_PopIII_E_SN q ev s) = PopII_SNIa_delay_norm2 s"
    and "PopIII_cutoff (init_PopIII_E_SN q ev s) = PopIII_cutoff s"
    and "PopIII_M_low (init_PopIII_E_SN q ev s) = PopIII_M_low s"
    and "PopIII_M_upp (init_PopIII_E_SN q ev s) = PopIII_M_upp s"
    and "PopIII_M_SN_low (init_PopIII_E_SN q ev s) = PopIII_M_SN_low s"
    and "PopIII_M1 (init_PopIII_E_SN q ev s) = PopIII_M1 s"
    and "PopIII_M2 (init_PopIII_E_SN q ev s) = PopIII_M2 s"
    and "PopIII_M3 (init_PopIII_E_SN q ev s) = PopIII_M3 s"
    and "PopIII_fac (init_PopIII_E_SN q ev s) = PopIII_fac s"
    and "PopIII_pw (init_PopIII_E_SN q ev s) = PopIII_pw s"
    and "PopII_SNIa_delay_spline (init_PopIII_E_SN q ev s) = PopII_SNIa_delay_spline s"
    and "PopIII_IMF_spline (init_PopIII_E_SN q ev s) = PopIII_IMF_spline s"
    and "PopIII_E_SN_spline (init_PopIII_E_SN q ev s) = create TypeGSLLinearInterpolator ms Es 18"
  by (simp_all add: init_PopIII_E_SN_def Let_def)

lemma init_feedback_values_sel [simp]:
  shows "PopII_M_low (init_feedback_values s) = PopII_M_low s"
    and "PopII_M_upp (init_feedback_values s) = PopII_M_upp s"
    and "PopII_fac_IMF (init_feedback_values s) = PopII_fac_IMF s"
    and "PopII_M_SNII_low (init_feedback_values s) = PopII_M_SNII_low s"
    and "PopII_M_SNIa_low (init_feedback_values s) = PopII_M_SNIa_low s"
    and "PopII_M_SNIa_upp (init_feedback_values s) = PopII_M_SNIa_upp s"
    and "PopII_SNIa_delay_mu (init_feedback_values s) = PopII_SNIa_delay_mu s"
    and "PopII_SNIa_delay_sigma (init_feedback_values s) = PopII_SNIa_delay_sigma s"
    and "PopII_SNIa_delay_norm1 (init_feedback_values s) = PopII_SNIa_delay_norm1 s"
    and "PopII_SNIa_delay_norm2 (init_feedback_values s) = PopII_SNIa_delay_norm2 s"
    and "PopIII_cutoff (init_feedback_values s) = PopIII_cutoff s"
    and "PopIII_M_low (init_feedback_values s) = PopIII_M_low s"
    and "PopIII_M_upp (init_feedback_values s) = PopIII_M_upp s"
    and "PopIII_M_SN_low (init_feedback_values s) = PopIII_M_SN_low s"
    and "PopIII_M1 (init_feedback_values s) = PopIII_M1 s"
    and "PopIII_M2 (init_feedback_values s) = PopIII_M2 s"
    and "PopIII_M3 (init_feedback_values s) = PopIII_M3 s"
    and "PopIII_fac (init_feedback_values s) = PopIII_fac s"
    and "PopIII_pw (init_feedback_values s) = PopIII_pw s"
    and "PopII_SNIa_delay_spline (init_feedback_values s) = PopII_SNIa_delay_spline s"
    and "PopIII_IMF_spline (init_feedback_values s) = PopIII_IMF_spline s"
    and "PopIII_E_SN_spline (init_feedback_values s) = PopIII_E_SN_spline s"
  by (simp_all add: init_feedback_values_def Let_def)

section \<open>The object after initialisation\<close>

lemma PopII_SNIa_delay1_cong:
  assumes "PopII_SNIa_delay_mu s = PopII_SNIa_delay_mu s'"
    and "PopII_SNIa_delay_sigma s = PopII_SNIa_delay_sigma s'"
    and "PopII_SNIa_delay_norm1 s = PopII_SNIa_delay_norm1 s'"
  shows "PopII_SNIa_delay1 s = PopII_SNIa_delay1 s'"
  unfolding fun_eq_iff PopII_SNIa_delay1_def assms
  by (rule allI) (rule refl)

lemma PopII_SNIa_delay2_cong:
  assumes "PopII_SNIa_delay_norm2 s = PopII_SNIa_delay_norm2 s'"
  shows "PopII_SNIa_delay2 s = PopII_SNIa_delay2 s'"
  unfolding fun_eq_iff PopII_SNIa_delay2_def assms
  by (rule allI) (rule refl)

lemma PopII_SNIa_delay_cong:
  assumes "PopII_SNIa_delay_mu s = PopII_SNIa_delay_mu s'"
    and "PopII_SNIa_delay_sigma s = PopII_SNIa_delay_sigma s'"
    and "PopII_SNIa_delay_norm1 s = PopII_SNIa_delay_norm1 s'"
    and "PopII_SNIa_delay_norm2 s = PopII_SNIa_delay_norm2 s'"
  shows "PopII_SNIa_delay s = PopII_SNIa_delay s'"
  unfolding fun_eq_iff PopII_SNIa_delay_def
    PopII_SNIa_delay1_cong [OF assms(1,2,3)] PopII_SNIa_delay2_cong [OF assms(4)]
  by (rule allI) (rule refl)

lemma PopIII_IMF_cong:
  assumes "PopIII_M_low s = PopIII_M_low s'" and "PopIII_M_upp s = PopIII_M_upp s'"
    and "PopIII_M1 s = PopIII_M1 s'" and "PopIII_M2 s = PopIII_M2 s'"
    and "PopIII_M3 s = PopIII_M3 s'" and "PopIII_fac s = PopIII_fac s'"
    and "PopIII_pw s = PopIII_pw s'"
  shows "PopIII_IMF s = PopIII_IMF s'"
  unfolding fun_eq_iff PopIII_IMF_def assms
  by (rule allI) (rule refl)

lemma init_delay_norm_norm1:
  "PopII_SNIa_delay_norm1 (init_delay_norm q s) =
     0.4 / q (PopII_SNIa_delay1 s) 0.03 13.6 (1 / 10 ^ 8)"
  by (simp add: init_delay_norm_def Let_def)

lemma init_delay_norm_norm2:
  "PopII_SNIa_delay_norm2 (init_delay_norm q s) =
     0.6 / q (PopII_SNIa_delay2 s) 0.03 13.6 (1 / 10 ^ 8)"
proof -
  have "PopII_SNIa_delay2 (s\<lparr>PopII_SNIa_delay_norm1 := x\<rparr>) = PopII_SNIa_delay2 s" for x
    by (rule PopII_SNIa_delay2_cong) simp
  then show ?thesis
    by (simp add: init_delay_norm_def Let_def)
qed

lemma initialize_eq:
  "initialize q ev s0 =
     Some (init_feedback_values (init_PopIII_E_SN q ev (init_lifetime_splines
       ((init_delay_norm q (init_integrals q (init_parameters s0)))
          \<lparr>PopII_SNIa_delay_spline :=
             \<lparr>spline_kind = TypeGSLCubicSplineInterpolator,
              spline_xs = SNIa_delay_ts q
                (PopII_SNIa_delay (init_delay_norm q (init_integrals q (init_parameters s0)))),
              spline_ys = SNIa_delay_cumul q
                (PopII_SNIa_delay (init_delay_norm q (init_integrals q (init_parameters s0))))\<rparr>,
           PopIII_IMF_spline :=
             \<lparr>spline_kind = TypeGSLLinearInterpolator,
              spline_xs = PopIII_IMF_grid,
              spline_ys = PopIII_IMF_cumul q
                (PopIII_IMF (init_delay_norm q (init_integrals q (init_parameters s0))))\<rparr>\<rparr>))))"
proof -
  let ?s = "init_delay_norm q (init_integrals q (init_parameters s0))"
  let ?d = "\<lparr>spline_kind = TypeGSLCubicSplineInterpolator,
          spline_xs = SNIa_delay_ts q (PopII_SNIa_delay ?s),
          spline_ys = SNIa_delay_cumul q (PopII_SNIa_delay ?s)\<rparr>"
  have low: "PopIII_M_low (?s\<lparr>PopII_SNIa_delay_spline := ?d\<rparr>) = 0.7"
    by simp
  have upp: "PopIII_M_upp (?s\<lparr>PopII_SNIa_delay_spline := ?d\<rparr>) = 500"
    by simp
  have imf: "PopIII_IMF (?s\<lparr>PopII_SNIa_delay_spline := ?d\<rparr>) = PopIII_IMF ?s"
    by (rule PopIII_IMF_cong) simp_all
  show ?thesis
    unfolding initialize_def Let_def init_SNIa_delay_spline_eq
    by (simp add: init_PopIII_IMF_spline_eq [OF low upp] imf)
qed

text \<open>
  \<open>initialize\<close> returns an object, for every integrator, interpolator and content of
  the members before the call: neither loop writes past the end of its array, and no
  cell of an array is read before it is written.
\<close>

lemma initialize_total: "\<exists>m. initialize q ev s0 = Some m"
  unfolding initialize_eq by blast

lemma initialize_parameters:
  assumes "initialize q ev s0 = Some m"
  shows "PopII_M_low m = 0.07" and "PopII_M_upp m = 100"
    and "PopII_fac_IMF m = 1 / PopII_IMF_sub1 1"
    and "PopII_SNIa_delay_mu m = 0.05" and "PopII_SNIa_delay_sigma m = 0.01"
    and "PopIII_M_low m = 0.7" and "PopIII_M_upp m = 500"
    and "PopIII_M1 m = log 10 0.7" and "PopIII_M2 m = 1.51130759"
    and "PopIII_M3 m = log 10 500" and "PopIII_fac m = 708.92544818"
    and "PopIII_pw m = 2.8008394"
  using assms unfolding initialize_eq by auto

lemma initialize_norms:
  assumes "initialize q ev s0 = Some m"
  shows "PopII_SNIa_delay_norm1 m =
           0.4 / q (PopII_SNIa_delay1 (m\<lparr>PopII_SNIa_delay_norm1 := 1\<rparr>)) 0.03 13.6 (1 / 10 ^ 8)"
    and "PopII_SNIa_delay_norm2 m =
           0.6 / q (PopII_SNIa_delay2 (m\<lparr>PopII_SNIa_delay_norm2 := 1\<rparr>)) 0.03 13.6 (1 / 10 ^ 8)"
proof -
  let ?s1 = "init_integrals q (init_parameters s0)"
  have mu: "PopII_SNIa_delay_mu m = 0.05" and sigma: "PopII_SNIa_delay_sigma m = 0.01"
    using initialize_parameters [OF assms] by simp_all
  have d1: "PopII_SNIa_delay1 ?s1 = PopII_SNIa_delay1 (m\<lparr>PopII_SNIa_delay_norm1 := 1\<rparr>)"
    by (rule PopII_SNIa_delay1_cong) (simp_all add: mu sigma)
  have d2: "PopII_SNIa_delay2 ?s1 = PopII_SNIa_delay2 (m\<lparr>PopII_SNIa_delay_norm2 := 1\<rparr>)"
    by (rule PopII_SNIa_delay2_cong) simp
  have n1: "PopII_SNIa_delay_norm1 m = PopII_SNIa_delay_norm1 (init_delay_norm q ?s1)"
    using assms unfolding initialize_eq by auto
  have n2: "PopII_SNIa_delay_norm2 m = PopII_SNIa_delay_norm2 (init_delay_norm q ?s1)"
    using assms unfolding initialize_eq by auto
  show "PopII_SNIa_delay_norm1 m =
           0.4 / q (PopII_SNIa_delay1 (m\<lparr>PopII_SNIa_delay_norm1 := 1\<rparr>)) 0.03 13.6 (1 / 10 ^ 8)"
    unfolding n1 init_delay_norm_norm1 d1 ..
  show "PopII_SNIa_delay_norm2 m =
           0.6 / q (PopII_SNIa_delay2 (m\<lparr>PopII_SNIa_delay_norm2 := 1\<rparr>)) 0.03 13.6 (1 / 10 ^ 8)"
    unfolding n2 init_delay_norm_norm2 d2 ..
qed

lemma initialize_splines:
  assumes "initialize q ev s0 = Some m"
  shows "PopII_SNIa_delay_spline m =
           \<lparr>spline_kind = TypeGSLCubicSplineInterpolator,
            spline_xs = SNIa_delay_ts q (PopII_SNIa_delay m),
            spline_ys = SNIa_delay_cumul q (PopII_SNIa_delay m)\<rparr>"
    and "PopIII_IMF_spline m =
           \<lparr>spline_kind = TypeGSLLinearInterpolator,
            spline_xs = PopIII_IMF_grid,
            spline_ys = PopIII_IMF_cumul q (PopIII_IMF m)\<rparr>"
    and "PopIII_E_SN_spline m = create TypeGSLLinearInterpolator ms Es 18"
proof -
  let ?s = "init_delay_norm q (init_integrals q (init_parameters s0))"
  have d: "PopII_SNIa_delay m = PopII_SNIa_delay ?s"
    using assms unfolding initialize_eq by (intro PopII_SNIa_delay_cong) auto
  have i: "PopIII_IMF m = PopIII_IMF ?s"
    using assms unfolding initialize_eq by (intro PopIII_IMF_cong) auto
  show "PopII_SNIa_delay_spline m =
           \<lparr>spline_kind = TypeGSLCubicSplineInterpolator,
            spline_xs = SNIa_delay_ts q (PopII_SNIa_delay m),
            spline_ys = SNIa_delay_cumul q (PopII_SNIa_delay m)\<rparr>"
    unfolding d using assms unfolding initialize_eq by auto
  show "PopIII_IMF_spline m =
           \<lparr>spline_kind = TypeGSLLinearInterpolator,
            spline_xs = PopIII_IMF_grid,
            spline_ys = PopIII_IMF_cumul q (PopIII_IMF m)\<rparr>"
    unfolding i using assms unfolding initialize_eq by auto
  show "PopIII_E_SN_spline m = create TypeGSLLinearInterpolator ms Es 18"
    using assms unfolding initialize_eq by auto
qed

section \<open>Auxiliary facts\<close>

lemma initialize_returns: "initialize q ev s0 = Some (the (initialize q ev s0))"
  unfolding initialize_eq by simp

lemma built_initialize: "initialize one_point_rule linear_eval blank = Some built"
  unfolding built_def by (rule initialize_returns)

lemma PopII_IMF_sub1_pos: "0 < m \<Longrightarrow> 0 < PopII_IMF_sub1 m"
  by (simp add: PopII_IMF_sub1_def Let_def)

lemma PopII_IMF_sub1_one: "PopII_IMF_sub1 1 = exp (- 0.5 * (1.1024 * 1.1024 / 0.4761))"
  by (simp add: PopII_IMF_sub1_def Let_def)

lemma PopII_IMF_nonneg:
  assumes "initialize q ev s0 = Some m"
  shows "0 \<le> PopII_IMF m x"
proof -
  note p = initialize_parameters [OF assms]
  have "0 \<le> PopII_fac_IMF m"
    using PopII_IMF_sub1_pos [of 1] by (simp add: p)
  moreover have "0 \<le> PopII_IMF_sub1 x" if "PopII_M_low m < x"
    using that PopII_IMF_sub1_pos [of x] by (simp add: p)
  ultimately show ?thesis
    by (simp add: PopII_IMF_def)
qed

lemma PopIII_IMF_nonneg:
  assumes "initialize q ev s0 = Some m"
  shows "0 \<le> PopIII_IMF m x"
  by (simp add: PopIII_IMF_def Let_def initialize_parameters(6,7) [OF assms])

lemma PopII_SNIa_delay2_nonneg: "0 \<le> PopII_SNIa_delay2 s t"
  by (simp add: PopII_SNIa_delay2_def Let_def)

lemma PopII_SNIa_delay2_outside:
  assumes "0 \<le> PopII_SNIa_delay_norm2 s" and "t \<le> 0.03 \<or> 15.65 \<le> t"
  shows "PopII_SNIa_delay2 s t = 0"
proof -
  have "PopII_SNIa_delay_norm2 s * (exp ((t - 0.25) / 0.1) - exp ((0.03 - 0.25) / 0.1)) \<le> 0"
    if "t \<le> 0.03"
    using that assms(1) by (intro mult_nonneg_nonpos) simp_all
  moreover have "PopII_SNIa_delay_norm2 s * (exp ((0.25 - t) / 7) - exp ((0.03 - 0.25) / 0.1)) \<le> 0"
    if "15.65 \<le> t"
    using that assms(1) by (intro mult_nonneg_nonpos) simp_all
  ultimately show ?thesis
    using assms(2) by (auto simp add: PopII_SNIa_delay2_def Let_def)
qed

lemma PopII_SNIa_delay1_nonneg:
  assumes "0 \<le> PopII_SNIa_delay_norm1 s" and "0.03 \<le> t" and "t \<le> 13.6"
  shows "0 \<le> PopII_SNIa_delay1 s t"
  using assms by (simp add: PopII_SNIa_delay1_def Let_def)

lemma built_norm1: "PopII_SNIa_delay_norm1 built = 0.4 / 0.271"
  unfolding initialize_norms(1) [OF built_initialize]
  by (simp add: one_point_rule_def PopII_SNIa_delay1_def initialize_parameters [OF built_initialize])

lemma built_norm2: "PopII_SNIa_delay_norm2 built = 0.6 / (exp (- 2) - exp (- 2.2))"
  unfolding initialize_norms(2) [OF built_initialize]
  by (simp add: one_point_rule_def PopII_SNIa_delay2_def)

lemma padded_nth:
  assumes "length l = n"
  shows "(a # l @ [b, c]) ! 0 = a" and "(a # l @ [b, c]) ! Suc n = b"
    and "(a # l @ [b, c]) ! Suc (Suc n) = c" and "length (a # l @ [b, c]) = n + 3"
  using assms by (simp_all add: nth_append)

lemma SNIa_delay_ts_nth:
  shows "length (SNIa_delay_ts q f) = 30"
    and "SNIa_delay_ts q f ! 0 = - 2 + q f 0.03 (10 powr (log 10 0.03)) (1 / 10 ^ 8)"
    and "SNIa_delay_ts q f ! 1 = log 10 0.03"
    and "SNIa_delay_ts q f ! 28 = log 10 13.6"
    and "SNIa_delay_ts q f ! 29 = log 10 13.8"
proof -
  let ?l = "map (\<lambda>k. log 10 0.03 + 0.1 * real k) [0..<27]"
  have len: "length ?l = 27" by simp
  have e28: "(28::nat) = Suc 27" and e29: "(29::nat) = Suc (Suc 27)" by simp_all
  show "length (SNIa_delay_ts q f) = 30"
    unfolding SNIa_delay_ts_def padded_nth(4) [OF len] by simp
  show "SNIa_delay_ts q f ! 0 = - 2 + q f 0.03 (10 powr (log 10 0.03)) (1 / 10 ^ 8)"
    unfolding SNIa_delay_ts_def by simp
  show "SNIa_delay_ts q f ! 28 = log 10 13.6"
    unfolding SNIa_delay_ts_def e28 padded_nth(2) [OF len] ..
  show "SNIa_delay_ts q f ! 29 = log 10 13.8"
    unfolding SNIa_delay_ts_def e29 padded_nth(3) [OF len] ..
  have "SNIa_delay_ts q f ! 1 = ?l ! 0"
    unfolding SNIa_delay_ts_def by (simp add: nth_append del: upt_Suc)
  also have "\<dots> = log 10 0.03" by (subst nth_map) simp_all
  finally show "SNIa_delay_ts q f ! 1 = log 10 0.03" .
qed

lemma SNIa_delay_cumul_nth:
  shows "length (SNIa_delay_cumul q f) = 30"
    and "SNIa_delay_cumul q f ! 0 = 0"
    and "SNIa_delay_cumul q f ! 1 = q f 0.03 (10 powr (log 10 0.03)) (1 / 10 ^ 8)"
    and "SNIa_delay_cumul q f ! 28 = 1"
    and "SNIa_delay_cumul q f ! 29 = 1"
proof -
  let ?l = "map (\<lambda>k. q f 0.03 (10 powr (log 10 0.03 + 0.1 * real k)) (1 / 10 ^ 8)) [0..<27]"
  have len: "length ?l = 27" by simp
  have e28: "(28::nat) = Suc 27" and e29: "(29::nat) = Suc (Suc 27)" by simp_all
  show "length (SNIa_delay_cumul q f) = 30"
    unfolding SNIa_delay_cumul_def padded_nth(4) [OF len] by simp
  show "SNIa_delay_cumul q f ! 0 = 0"
    unfolding SNIa_delay_cumul_def by simp
  show "SNIa_delay_cumul q f ! 28 = 1"
    unfolding SNIa_delay_cumul_def e28 padded_nth(2) [OF len] ..
  show "SNIa_delay_cumul q f ! 29 = 1"
    unfolding SNIa_delay_cumul_def e29 padded_nth(3) [OF len] ..
  have "SNIa_delay_cumul q f ! 1 = ?l ! 0"
    unfolding SNIa_delay_cumul_def by (simp add: nth_append del: upt_Suc)
  also have "\<dots> = q f 0.03 (10 powr (log 10 0.03)) (1 / 10 ^ 8)"
    by (subst nth_map) simp_all
  finally show "SNIa_delay_cumul q f ! 1 = q f 0.03 (10 powr (log 10 0.03)) (1 / 10 ^ 8)" .
qed

lemma PopIII_IMF_grid_nth:
  shows "length PopIII_IMF_grid = 289"
    and "PopIII_IMF_grid ! 0 = - 2"
    and "PopIII_IMF_grid ! 1 = log 10 0.7"
    and "PopIII_IMF_grid ! 287 = log 10 500"
    and "PopIII_IMF_grid ! 288 = 3"
proof -
  let ?l = "map (\<lambda>k. log 10 0.7 + 0.01 * real k) [0..<286]"
  have len: "length ?l = 286" by simp
  have e287: "(287::nat) = Suc 286" and e288: "(288::nat) = Suc (Suc 286)" by simp_all
  show "length PopIII_IMF_grid = 289"
    unfolding PopIII_IMF_grid_def padded_nth(4) [OF len] by simp
  show "PopIII_IMF_grid ! 0 = - 2"
    unfolding PopIII_IMF_grid_def by simp
  show "PopIII_IMF_grid ! 287 = log 10 500"
    unfolding PopIII_IMF_grid_def e287 padded_nth(2) [OF len] ..
  show "PopIII_IMF_grid ! 288 = 3"
    unfolding PopIII_IMF_grid_def e288 padded_nth(3) [OF len] ..
  have "PopIII_IMF_grid ! 1 = ?l ! 0"
    unfolding PopIII_IMF_grid_def by (simp add: nth_append del: upt_Suc)
  also have "\<dots> = log 10 0.7" by (subst nth_map) simp_all
  finally show "PopIII_IMF_grid ! 1 = log 10 0.7" .
qed

lemma PopIII_IMF_cumul_nth:
  shows "length (PopIII_IMF_cumul q f) = 289"
    and "PopIII_IMF_cumul q f ! 0 = q f 0 500 (1 / 10 ^ 8)"
    and "PopIII_IMF_cumul q f ! 287 = 0"
    and "PopIII_IMF_cumul q f ! 288 = 0"
proof -
  let ?l = "map (\<lambda>k. q f (10 powr (log 10 0.7 + 0.01 * real k)) 500 (1 / 10 ^ 8)) [0..<286]"
  have len: "length ?l = 286" by simp
  have e287: "(287::nat) = Suc 286" and e288: "(288::nat) = Suc (Suc 286)" by simp_all
  show "length (PopIII_IMF_cumul q f) = 289"
    unfolding PopIII_IMF_cumul_def padded_nth(4) [OF len] by simp
  show "PopIII_IMF_cumul q f ! 0 = q f 0 500 (1 / 10 ^ 8)"
    unfolding PopIII_IMF_cumul_def by simp
  show "PopIII_IMF_cumul q f ! 287 = 0"
    unfolding PopIII_IMF_cumul_def e287 padded_nth(2) [OF len] ..
  show "PopIII_IMF_cumul q f ! 288 = 0"
    unfolding PopIII_IMF_cumul_def e288 padded_nth(3) [OF len] ..
qed

lemma E_SN_table:
  shows "length ms = 18" and "length Es = 18"
    and "ms ! 0 = 0.7" and "Es ! 0 = 0" and "ms ! 12 = 150" and "Es ! 12 = 16"
  by (simp_all add: ms_def Es_def)

lemma linear_eval_interpolates: "interpolates linear_eval (create TypeGSLLinearInterpolator ms Es 18)"
proof -
  have "\<forall>i<18. linear_interp ms Es (ms ! i) = Es ! i"
    unfolding ms_def Es_def by (simp add: numeral_eq_Suc All_less_Suc)
  then show ?thesis
    by (simp add: interpolates_def linear_eval_def create_def E_SN_table)
qed

lemma PopII_SNIa_delay1_scale:
  "PopII_SNIa_delay1 s = (\<lambda>t. PopII_SNIa_delay_norm1 s *
      PopII_SNIa_delay1 (s\<lparr>PopII_SNIa_delay_norm1 := 1\<rparr>) t)"
  by (simp add: fun_eq_iff PopII_SNIa_delay1_def Let_def)

lemma PopII_SNIa_delay2_scale:
  assumes "0 < PopII_SNIa_delay_norm2 s"
  shows "PopII_SNIa_delay2 s = (\<lambda>t. PopII_SNIa_delay_norm2 s *
      PopII_SNIa_delay2 (s\<lparr>PopII_SNIa_delay_norm2 := 1\<rparr>) t)"
  using assms by (simp add: fun_eq_iff PopII_SNIa_delay2_def Let_def zero_less_mult_iff)

lemma delay_integrals:
  assumes "initialize q ev s0 = Some m" and "qag_linear q"
    and p1: "0 < q (PopII_SNIa_delay1 (m\<lparr>PopII_SNIa_delay_norm1 := 1\<rparr>)) 0.03 13.6 (1 / 10 ^ 8)"
    and p2: "0 < q (PopII_SNIa_delay2 (m\<lparr>PopII_SNIa_delay_norm2 := 1\<rparr>)) 0.03 13.6 (1 / 10 ^ 8)"
  shows "q (PopII_SNIa_delay1 m) 0.03 13.6 (1 / 10 ^ 8) = 0.4"
    and "q (PopII_SNIa_delay2 m) 0.03 13.6 (1 / 10 ^ 8) = 0.6"
    and "q (PopII_SNIa_delay m) 0.03 13.6 (1 / 10 ^ 8) = 1"
    and "0 < PopII_SNIa_delay_norm1 m" and "0 < PopII_SNIa_delay_norm2 m"
proof -
  let ?u1 = "PopII_SNIa_delay1 (m\<lparr>PopII_SNIa_delay_norm1 := 1\<rparr>)"
  let ?u2 = "PopII_SNIa_delay2 (m\<lparr>PopII_SNIa_delay_norm2 := 1\<rparr>)"
  let ?tol = "1 / 10 ^ 8 :: real"
  have n1: "PopII_SNIa_delay_norm1 m = 0.4 / q ?u1 0.03 13.6 ?tol"
    by (rule initialize_norms(1) [OF assms(1)])
  have n2: "PopII_SNIa_delay_norm2 m = 0.6 / q ?u2 0.03 13.6 ?tol"
    by (rule initialize_norms(2) [OF assms(1)])
  from assms(2) have scale: "\<And>f c a b tol. q (\<lambda>x. c * f x) a b tol = c * q f a b tol"
    and add: "\<And>f g a b tol. q (\<lambda>x. f x + g x) a b tol = q f a b tol + q g a b tol"
    unfolding qag_linear_def by blast+
  show "0 < PopII_SNIa_delay_norm1 m"
    unfolding n1 using p1 by simp
  show pos2: "0 < PopII_SNIa_delay_norm2 m"
    unfolding n2 using p2 by simp
  have "q (PopII_SNIa_delay1 m) 0.03 13.6 ?tol = PopII_SNIa_delay_norm1 m * q ?u1 0.03 13.6 ?tol"
    by (subst PopII_SNIa_delay1_scale) (rule scale)
  also have "\<dots> = 0.4"
    unfolding n1 using p1 by simp
  finally show i1: "q (PopII_SNIa_delay1 m) 0.03 13.6 ?tol = 0.4" .
  have "q (PopII_SNIa_delay2 m) 0.03 13.6 ?tol = PopII_SNIa_delay_norm2 m * q ?u2 0.03 13.6 ?tol"
    by (subst PopII_SNIa_delay2_scale [OF pos2]) (rule scale)
  also have "\<dots> = 0.6"
    unfolding n2 using p2 by simp
  finally show i2: "q (PopII_SNIa_delay2 m) 0.03 13.6 ?tol = 0.6" .
  have "PopII_SNIa_delay m = (\<lambda>t. PopII_SNIa_delay1 m t + PopII_SNIa_delay2 m t)"
    by (simp add: fun_eq_iff PopII_SNIa_delay_def)
  then have "q (PopII_SNIa_delay m) 0.03 13.6 ?tol =
      q (PopII_SNIa_delay1 m) 0.03 13.6 ?tol + q (PopII_SNIa_delay2 m) 0.03 13.6 ?tol"
    by (simp only: add)
  then show "q (PopII_SNIa_delay m) 0.03 13.6 ?tol = 1"
    unfolding i1 i2 by simp
qed

lemma one_point_rule_linear: "qag_linear one_point_rule"
  by (simp add: qag_linear_def one_point_rule_def)

lemma built_dint1:
  "one_point_rule (PopII_SNIa_delay1 (built\<lparr>PopII_SNIa_delay_norm1 := 1\<rparr>)) 0.03 13.6 (1 / 10 ^ 8)
     = 0.271"
  by (simp add: one_point_rule_def PopII_SNIa_delay1_def initialize_parameters [OF built_initialize])

lemma built_dint2:
  "one_point_rule (PopII_SNIa_delay2 (built\<lparr>PopII_SNIa_delay_norm2 := 1\<rparr>)) 0.03 13.6 (1 / 10 ^ 8)
     = exp (- 2) - exp (- 2.2)"
  by (simp add: one_point_rule_def PopII_SNIa_delay2_def)








lemma spline_roundtrip_choice:
  assumes "spline_roundtrip sd sc"
  obtains E where "\<And>sp f. sd sp f = f @ E sp f"
    and "\<And>sp f r. sc (E sp f @ r) = Some (sp, r)"
proof -
  have "\<forall>sp. \<exists>E. \<forall>f. sd sp f = f @ E f \<and> (\<forall>r. sc (E f @ r) = Some (sp, r))"
    using assms unfolding spline_roundtrip_def by (intro allI choice) blast
  then have "\<exists>E. \<forall>sp f. sd sp f = f @ E sp f \<and> (\<forall>r. sc (E sp f @ r) = Some (sp, r))"
    by (rule choice)
  then show ?thesis using that by blast
qed

lemma rfile_read_Cons: "rfile_read (v # f) = Some (v, f)"
  by (simp add: rfile_read_def)

lemma list_roundtrip: "spline_roundtrip list_dump list_create"
  unfolding spline_roundtrip_def
proof (intro allI)
  fix sp :: spline and f :: RestartFile
  let ?e = "[kind_code (spline_kind sp), real (length (spline_xs sp))] @ spline_xs sp @
       [real (length (spline_ys sp))] @ spline_ys sp"
  have "list_create (?e @ r) = Some (sp, r)" for r
    by (cases sp) (simp add: list_create_def kind_code_def split: interp_kind.splits)
  then show "\<exists>e. list_dump sp f = f @ e \<and> (\<forall>r. list_create (e @ r) = Some (sp, r))"
    unfolding list_dump_def by blast
qed


















section \<open>Properties\<close>

text \<open>
  C9. For every star particle, every particle vector and every time interval,
  \<open>do_feedback\<close> computes nothing: the feedback object, the star particle and the
  particle vector are what they were before the call.
\<close>

theorem do_feedback_unchanged:
  "do_feedback s star particles dt = (s, star, particles)"
  by (simp add: do_feedback_def)

text \<open>
  C10. The delay time distribution is exactly 0 at \<open>t = 0.03\<close>, in every state of the
  object: the first part has the factor \<open>t - 0.03\<close>, and in the second part the two
  exponentials are equal there.
\<close>

theorem PopII_SNIa_delay_zero_at_lower_end:
  "PopII_SNIa_delay1 s 0.03 = 0 \<and> PopII_SNIa_delay2 s 0.03 = 0 \<and> PopII_SNIa_delay s 0.03 = 0"
  by (simp add: PopII_SNIa_delay_def PopII_SNIa_delay1_def PopII_SNIa_delay2_def)

text \<open>
  C7, as amended. After \<open>initialize\<close>, \<open>PopII_fac_IMF\<close> is \<open>1 / PopII_IMF_sub1 1\<close>;
  \<open>PopII_IMF 1\<close> is the value \<open>1 powr (- 2.3)\<close> of the high-mass branch (the test
  \<open>m < 1\<close> fails at \<open>m = 1\<close>), the low-mass branch \<open>PopII_fac_IMF * PopII_IMF_sub1 m\<close>
  has the same value at \<open>m = 1\<close>, and that value is 1.
\<close>

theorem PopII_IMF_at_one:
  assumes "initialize q ev s0 = Some m"
  shows "PopII_fac_IMF m = 1 / PopII_IMF_sub1 1 \<and>
         PopII_IMF m 1 = 1 powr (- 2.3) \<and>
         PopII_fac_IMF m * PopII_IMF_sub1 1 = 1 powr (- 2.3) \<and>
         PopII_IMF m 1 = 1"
proof -
  note p = initialize_parameters [OF assms]
  have "PopII_IMF_sub1 1 \<noteq> 0"
    using PopII_IMF_sub1_pos [of 1] by simp
  then show ?thesis
    by (simp add: PopII_IMF_def p)
qed


text \<open>The statement on the object built with the concrete collaborators.\<close>

theorem PopII_IMF_at_one_witness:
  "PopII_fac_IMF built = 1 / PopII_IMF_sub1 1 \<and>
   PopII_IMF built 1 = 1 powr (- 2.3) \<and>
   PopII_fac_IMF built * PopII_IMF_sub1 1 = 1 powr (- 2.3) \<and>
   PopII_IMF built 1 = 1"
  by (rule PopII_IMF_at_one [OF built_initialize])


text \<open>
  C7 as stated fails on the built object: \<open>PopII_IMF 1\<close> is 1, and \<open>PopII_fac_IMF\<close> is
  greater than 1.
\<close>

theorem PopII_IMF_at_one_is_not_fac_IMF:
  "PopII_IMF built 1 = 1 \<and> 1 < PopII_fac_IMF built \<and>
   PopII_IMF built 1 \<noteq> PopII_fac_IMF built * 1"
proof -
  note p = initialize_parameters [OF built_initialize]
  have "PopII_IMF built 1 = 1"
    by (simp add: PopII_IMF_def p)
  moreover have "1 < PopII_fac_IMF built"
    by (simp add: p PopII_IMF_sub1_one flip: exp_minus)
  ultimately show ?thesis by simp
qed


text \<open>
  C2, as amended. After \<open>initialize\<close>, the two IMFs are non-negative everywhere and zero
  at and outside the bounds of their mass interval; the second part of the delay time
  distribution is non-negative everywhere and, for a non-negative constant, zero up to
  0.03 and from 15.65 on; the first part and the sum are non-negative on the window
  from 0.03 to 13.6, for a non-negative constant.
\<close>

theorem densities_nonnegative:
  assumes "initialize q ev s0 = Some m"
  shows "(\<forall>x. 0 \<le> PopII_IMF m x) \<and>
         (\<forall>x. x \<le> PopII_M_low m \<or> PopII_M_upp m \<le> x \<longrightarrow> PopII_IMF m x = 0) \<and>
         (\<forall>x. 0 \<le> PopIII_IMF m x) \<and>
         (\<forall>x. x \<le> PopIII_M_low m \<or> PopIII_M_upp m \<le> x \<longrightarrow> PopIII_IMF m x = 0) \<and>
         (\<forall>t. 0 \<le> PopII_SNIa_delay2 m t) \<and>
         (0 \<le> PopII_SNIa_delay_norm2 m \<longrightarrow>
            (\<forall>t. t \<le> 0.03 \<or> 15.65 \<le> t \<longrightarrow> PopII_SNIa_delay2 m t = 0)) \<and>
         (0 \<le> PopII_SNIa_delay_norm1 m \<longrightarrow>
            (\<forall>t. 0.03 \<le> t \<and> t \<le> 13.6 \<longrightarrow>
               0 \<le> PopII_SNIa_delay1 m t \<and> 0 \<le> PopII_SNIa_delay m t))"
proof (intro conjI allI impI)
  fix x :: real show "0 \<le> PopII_IMF m x" by (rule PopII_IMF_nonneg [OF assms])
next
  fix x :: real assume "x \<le> PopII_M_low m \<or> PopII_M_upp m \<le> x"
  then show "PopII_IMF m x = 0" by (auto simp add: PopII_IMF_def)
next
  fix x :: real show "0 \<le> PopIII_IMF m x" by (rule PopIII_IMF_nonneg [OF assms])
next
  fix x :: real assume "x \<le> PopIII_M_low m \<or> PopIII_M_upp m \<le> x"
  then show "PopIII_IMF m x = 0" by (auto simp add: PopIII_IMF_def)
next
  fix t :: real show "0 \<le> PopII_SNIa_delay2 m t" by (rule PopII_SNIa_delay2_nonneg)
next
  fix t :: real assume "0 \<le> PopII_SNIa_delay_norm2 m" and "t \<le> 0.03 \<or> 15.65 \<le> t"
  then show "PopII_SNIa_delay2 m t = 0" by (rule PopII_SNIa_delay2_outside)
next
  fix t :: real assume n: "0 \<le> PopII_SNIa_delay_norm1 m" and t: "0.03 \<le> t \<and> t \<le> 13.6"
  then show d1: "0 \<le> PopII_SNIa_delay1 m t"
    by (intro PopII_SNIa_delay1_nonneg) simp_all
  show "0 \<le> PopII_SNIa_delay m t"
    unfolding PopII_SNIa_delay_def using d1 PopII_SNIa_delay2_nonneg [of m t] by simp
qed


text \<open>The statement on the object built with the concrete collaborators.\<close>

theorem densities_nonnegative_witness:
  "0 \<le> PopII_IMF built 0.5 \<and> PopII_IMF built 0.07 = 0 \<and> PopII_IMF built 100 = 0 \<and>
   0 \<le> PopIII_IMF built 20 \<and> PopIII_IMF built 0.7 = 0 \<and> PopIII_IMF built 500 = 0 \<and>
   0 \<le> PopII_SNIa_delay2 built 20 \<and> PopII_SNIa_delay2 built 0.01 = 0 \<and>
   PopII_SNIa_delay2 built 20 = 0 \<and>
   0 \<le> PopII_SNIa_delay1 built 1 \<and> 0 \<le> PopII_SNIa_delay built 1"
proof -
  note p = initialize_parameters [OF built_initialize]
  have n1: "0 \<le> PopII_SNIa_delay_norm1 built" by (simp add: built_norm1)
  have n2: "0 \<le> PopII_SNIa_delay_norm2 built" by (simp add: built_norm2)
  show ?thesis
    using densities_nonnegative [OF built_initialize] n1 n2 by (simp add: p)
qed


text \<open>
  C2 as stated fails on the built object: the first part of the delay time distribution
  has no clamp, and is negative at \<open>t = 0\<close>, below the window.
\<close>

theorem PopII_SNIa_delay1_negative_below_window: "PopII_SNIa_delay1 built 0 < 0"
  by (simp add: PopII_SNIa_delay1_def built_norm1 initialize_parameters [OF built_initialize]
      mult_less_0_iff)


text \<open>
  C5, as amended. The cumulative delay time spline is a cubic spline with 30 knots. The
  padding knot has the ordinate 0 and the abscissa \<open>- 2\<close> plus the first sample of the
  loop, which is the integral from 0.03 to \<open>10 powr (log 10 0.03)\<close> and sits at the
  abscissa \<open>log 10 0.03\<close>; the two trailing knots have the ordinate 1 at the abscissas
  \<open>log 10 13.6\<close> and \<open>log 10 13.8\<close>.
\<close>

theorem SNIa_delay_spline_padding:
  assumes "initialize q ev s0 = Some m"
  shows "spline_kind (PopII_SNIa_delay_spline m) = TypeGSLCubicSplineInterpolator \<and>
         length (spline_xs (PopII_SNIa_delay_spline m)) = 30 \<and>
         length (spline_ys (PopII_SNIa_delay_spline m)) = 30 \<and>
         spline_xs (PopII_SNIa_delay_spline m) ! 0 =
           - 2 + spline_ys (PopII_SNIa_delay_spline m) ! 1 \<and>
         spline_ys (PopII_SNIa_delay_spline m) ! 0 = 0 \<and>
         spline_xs (PopII_SNIa_delay_spline m) ! 1 = log 10 0.03 \<and>
         spline_ys (PopII_SNIa_delay_spline m) ! 1 =
           q (PopII_SNIa_delay m) 0.03 (10 powr (log 10 0.03)) (1 / 10 ^ 8) \<and>
         spline_xs (PopII_SNIa_delay_spline m) ! 28 = log 10 13.6 \<and>
         spline_ys (PopII_SNIa_delay_spline m) ! 28 = 1 \<and>
         spline_xs (PopII_SNIa_delay_spline m) ! 29 = log 10 13.8 \<and>
         spline_ys (PopII_SNIa_delay_spline m) ! 29 = 1"
  unfolding initialize_splines(1) [OF assms]
  by (simp add: SNIa_delay_ts_nth SNIa_delay_cumul_nth SNIa_delay_ts_nth [unfolded One_nat_def]
      SNIa_delay_cumul_nth [unfolded One_nat_def])


text \<open>The statement on the object built with the concrete collaborators.\<close>

theorem SNIa_delay_spline_padding_witness:
  "spline_kind (PopII_SNIa_delay_spline built) = TypeGSLCubicSplineInterpolator \<and>
  length (spline_xs (PopII_SNIa_delay_spline built)) = 30 \<and>
  length (spline_ys (PopII_SNIa_delay_spline built)) = 30 \<and>
  spline_xs (PopII_SNIa_delay_spline built) ! 0 =
  - 2 + spline_ys (PopII_SNIa_delay_spline built) ! 1 \<and>
  spline_ys (PopII_SNIa_delay_spline built) ! 0 = 0 \<and>
  spline_xs (PopII_SNIa_delay_spline built) ! 1 = log 10 0.03 \<and>
  spline_ys (PopII_SNIa_delay_spline built) ! 1 =
  one_point_rule (PopII_SNIa_delay built) 0.03 (10 powr (log 10 0.03)) (1 / 10 ^ 8) \<and>
  spline_xs (PopII_SNIa_delay_spline built) ! 28 = log 10 13.6 \<and>
  spline_ys (PopII_SNIa_delay_spline built) ! 28 = 1 \<and>
  spline_xs (PopII_SNIa_delay_spline built) ! 29 = log 10 13.8 \<and>
  spline_ys (PopII_SNIa_delay_spline built) ! 29 = 1"
  by (rule SNIa_delay_spline_padding [OF built_initialize])

text \<open>
  C5 as stated fails on the built object: the abscissa of the padding knot is \<open>- 2\<close>,
  not \<open>log 10 0.03 - 2\<close>.
\<close>

theorem SNIa_delay_spline_first_abscissa:
  "spline_xs (PopII_SNIa_delay_spline built) ! 0 = - 2 \<and>
   spline_xs (PopII_SNIa_delay_spline built) ! 0 \<noteq> log 10 0.03 - 2"
proof -
  have "spline_xs (PopII_SNIa_delay_spline built) ! 0 = - 2"
    unfolding initialize_splines(1) [OF built_initialize]
    by (simp add: SNIa_delay_ts_nth one_point_rule_def)
  moreover have "log 10 0.03 < (0::real)" by simp
  ultimately show ?thesis by linarith
qed


text \<open>
  C6, as amended. The cumulative Pop III IMF spline is a linear spline with 289 knots.
  The first knot has the abscissa \<open>- 2\<close> and as ordinate the integral of the Pop III IMF
  from 0 to \<open>PopIII_M_upp\<close>; the first sample of the loop sits at
  \<open>log 10 PopIII_M_low\<close>; the two trailing knots have the ordinate 0 at the abscissas
  \<open>log 10 PopIII_M_upp\<close> and 3, which is above it.
\<close>

theorem PopIII_IMF_spline_padding:
  assumes "initialize q ev s0 = Some m"
  shows "spline_kind (PopIII_IMF_spline m) = TypeGSLLinearInterpolator \<and>
         length (spline_xs (PopIII_IMF_spline m)) = 289 \<and>
         length (spline_ys (PopIII_IMF_spline m)) = 289 \<and>
         spline_xs (PopIII_IMF_spline m) ! 0 = - 2 \<and>
         spline_ys (PopIII_IMF_spline m) ! 0 =
           q (PopIII_IMF m) 0 (PopIII_M_upp m) (1 / 10 ^ 8) \<and>
         spline_xs (PopIII_IMF_spline m) ! 1 = log 10 (PopIII_M_low m) \<and>
         spline_xs (PopIII_IMF_spline m) ! 287 = log 10 (PopIII_M_upp m) \<and>
         spline_ys (PopIII_IMF_spline m) ! 287 = 0 \<and>
         spline_xs (PopIII_IMF_spline m) ! 288 = 3 \<and>
         spline_ys (PopIII_IMF_spline m) ! 288 = 0 \<and>
         log 10 (PopIII_M_upp m) < 3"
proof -
  have "log 10 500 < log 10 (1000::real)" by (subst log_less_cancel_iff) simp_all
  moreover have "log 10 (1000::real) = 3"
    using log_pow_cancel [of 10 3] by simp
  ultimately have "log 10 (500::real) < 3" by simp
  then show ?thesis
    unfolding initialize_splines(2) [OF assms]
    by (simp add: PopIII_IMF_grid_nth PopIII_IMF_grid_nth [unfolded One_nat_def]
        PopIII_IMF_cumul_nth initialize_parameters [OF assms])
qed


text \<open>The statement on the object built with the concrete collaborators.\<close>

theorem PopIII_IMF_spline_padding_witness:
  "spline_kind (PopIII_IMF_spline built) = TypeGSLLinearInterpolator \<and>
  length (spline_xs (PopIII_IMF_spline built)) = 289 \<and>
  length (spline_ys (PopIII_IMF_spline built)) = 289 \<and>
  spline_xs (PopIII_IMF_spline built) ! 0 = - 2 \<and>
  spline_ys (PopIII_IMF_spline built) ! 0 =
  one_point_rule (PopIII_IMF built) 0 (PopIII_M_upp built) (1 / 10 ^ 8) \<and>
  spline_xs (PopIII_IMF_spline built) ! 1 = log 10 (PopIII_M_low built) \<and>
  spline_xs (PopIII_IMF_spline built) ! 287 = log 10 (PopIII_M_upp built) \<and>
  spline_ys (PopIII_IMF_spline built) ! 287 = 0 \<and>
  spline_xs (PopIII_IMF_spline built) ! 288 = 3 \<and>
  spline_ys (PopIII_IMF_spline built) ! 288 = 0 \<and>
  log 10 (PopIII_M_upp built) < 3"
  by (rule PopIII_IMF_spline_padding [OF built_initialize])

text \<open>
  C6 as stated fails on the built object: the abscissa of the first knot is \<open>- 2\<close>, not
  \<open>log 10 PopIII_M_low - 2\<close>.
\<close>

theorem PopIII_IMF_spline_first_abscissa:
  "spline_xs (PopIII_IMF_spline built) ! 0 = - 2 \<and>
   spline_xs (PopIII_IMF_spline built) ! 0 \<noteq> log 10 (PopIII_M_low built) - 2"
proof -
  have "spline_xs (PopIII_IMF_spline built) ! 0 = - 2"
    unfolding initialize_splines(2) [OF built_initialize]
    by (simp add: PopIII_IMF_grid_nth)
  moreover have "log 10 0.7 < (0::real)" by simp
  ultimately show ?thesis
    unfolding initialize_parameters(6) [OF built_initialize] by linarith
qed

text \<open>
  C8. After \<open>initialize\<close>, with an interpolator that passes through the knots of the
  supernova energy spline, \<open>PopIII_E_SN 0.7\<close> is 0 and \<open>PopIII_E_SN 150\<close> is
  \<open>16 * 10 ^ 51\<close>: the knots (0.7, 0) and (150, 16) of the literal table, times
  \<open>10 ^ 51\<close>.
\<close>

theorem PopIII_E_SN_at_knots:
  assumes "initialize q ev s0 = Some m"
    and "interpolates ev (PopIII_E_SN_spline m)"
  shows "PopIII_E_SN ev m 0.7 = 0 \<and> PopIII_E_SN ev m 150 = 16 * 10 ^ 51"
proof -
  let ?sp = "PopIII_E_SN_spline m"
  have sp: "spline_xs ?sp = ms" "spline_ys ?sp = Es"
    unfolding initialize_splines(3) [OF assms(1)] create_def
    by (simp_all add: E_SN_table)
  have knot: "ev ?sp (ms ! i) = Es ! i" if "i < 18" for i
    using assms(2) that unfolding interpolates_def sp E_SN_table by blast
  have a: "ev ?sp 0.7 = 0"
    using knot [of 0] unfolding E_SN_table by simp
  have b: "ev ?sp 150 = 16"
    using knot [of 12] unfolding E_SN_table by simp
  show ?thesis
    unfolding PopIII_E_SN_def a b by simp
qed

text \<open>The statement with piecewise linear interpolation.\<close>

theorem PopIII_E_SN_at_knots_witness:
  "PopIII_E_SN linear_eval built 0.7 = 0 \<and> PopIII_E_SN linear_eval built 150 = 16 * 10 ^ 51"
proof -
  have "interpolates linear_eval (PopIII_E_SN_spline built)"
    unfolding initialize_splines(3) [OF built_initialize] by (rule linear_eval_interpolates)
  with built_initialize show ?thesis by (rule PopIII_E_SN_at_knots)
qed

text \<open>
  C4. After \<open>initialize\<close>, the first constant is 0.4 divided by the integral over
  0.03 to 13.6 of the first part of the delay time distribution with the constant 1,
  and the second constant is 0.6 divided by the integral of the second part with the
  constant 1. With a linear integrator and positive integrals, the normalised parts
  integrate to 0.4 and 0.6, and the delay time distribution to 1.
\<close>

theorem SNIa_delay_normalisation:
  assumes "initialize q ev s0 = Some m"
  shows "PopII_SNIa_delay_norm1 m =
           0.4 / q (PopII_SNIa_delay1 (m\<lparr>PopII_SNIa_delay_norm1 := 1\<rparr>)) 0.03 13.6 (1 / 10 ^ 8) \<and>
         PopII_SNIa_delay_norm2 m =
           0.6 / q (PopII_SNIa_delay2 (m\<lparr>PopII_SNIa_delay_norm2 := 1\<rparr>)) 0.03 13.6 (1 / 10 ^ 8) \<and>
         (qag_linear q \<and>
          0 < q (PopII_SNIa_delay1 (m\<lparr>PopII_SNIa_delay_norm1 := 1\<rparr>)) 0.03 13.6 (1 / 10 ^ 8) \<and>
          0 < q (PopII_SNIa_delay2 (m\<lparr>PopII_SNIa_delay_norm2 := 1\<rparr>)) 0.03 13.6 (1 / 10 ^ 8)
          \<longrightarrow> q (PopII_SNIa_delay1 m) 0.03 13.6 (1 / 10 ^ 8) = 0.4 \<and>
              q (PopII_SNIa_delay2 m) 0.03 13.6 (1 / 10 ^ 8) = 0.6 \<and>
              q (PopII_SNIa_delay m) 0.03 13.6 (1 / 10 ^ 8) = 1)"
  using initialize_norms [OF assms] delay_integrals(1,2,3) [OF assms] by blast

text \<open>The statement with the one-point rule: the constants and the integral.\<close>

theorem SNIa_delay_normalisation_witness:
  "PopII_SNIa_delay_norm1 built = 0.4 / 0.271 \<and>
   PopII_SNIa_delay_norm2 built = 0.6 / (exp (- 2) - exp (- 2.2)) \<and>
   one_point_rule (PopII_SNIa_delay built) 0.03 13.6 (1 / 10 ^ 8) = 1"
proof -
  have "0 < one_point_rule (PopII_SNIa_delay1 (built\<lparr>PopII_SNIa_delay_norm1 := 1\<rparr>))
          0.03 13.6 (1 / 10 ^ 8)"
    unfolding built_dint1 by simp
  moreover have "0 < one_point_rule (PopII_SNIa_delay2 (built\<lparr>PopII_SNIa_delay_norm2 := 1\<rparr>))
          0.03 13.6 (1 / 10 ^ 8)"
    unfolding built_dint2 by simp
  ultimately show ?thesis
    using SNIa_delay_normalisation [OF built_initialize] one_point_rule_linear
    unfolding built_dint1 built_dint2 by blast
qed




text \<open>
  C1. With an interpolator whose \<^verbatim>\<open>create\<close> reads back what its \<^verbatim>\<open>dump\<close> wrote, the
  restart constructor, run on the file that \<open>dump\<close> wrote for an object \<open>s\<close>, returns
  \<open>s\<close> itself, whatever the members held before, and stops behind what \<open>dump\<close> wrote:
  every scalar member and every spline is the one of \<open>s\<close>. This holds for every object,
  so for the ones that \<open>initialize\<close> builds; the constructor reads and calls no
  integrator. The reads follow the order of the writes: with two members in another
  order the equation would fail on an object that has different values in them.
\<close>

theorem restart_dump:
  assumes "spline_roundtrip sd sc"
  shows "restart sc s0 (dump sd s [] @ r) = Some (s, r)"
proof -
  from assms obtain E where sd: "\<And>sp f. sd sp f = f @ E sp f"
    and sc: "\<And>sp f r. sc (E sp f @ r) = Some (sp, r)"
    by (rule spline_roundtrip_choice) blast
  show ?thesis
    unfolding dump_def restart_def Let_def
    by (simp add: sd sc rfile_write_def rfile_read_Cons)
qed

text \<open>The statement with the spline format of lists, on the built object.\<close>

theorem restart_dump_witness:
  "restart list_create blank (dump list_dump built [] @ []) = Some (built, [])"
  by (rule restart_dump [OF list_roundtrip])

end
